theory Spec2Isabelle
  imports Main "HOL-Library.Word"
begin

unbundle bit_operations_syntax

section \<open>Go values\<close>

text \<open>
  A Go \<^verbatim>\<open>byte\<close> is an 8-bit word and a \<^verbatim>\<open>uint32\<close> a 32-bit word; both wrap around.
  A function that returns \<^verbatim>\<open>error\<close> returns \<open>None\<close> for \<^verbatim>\<open>nil\<close>; a function that
  returns \<^verbatim>\<open>(T, error)\<close> returns a sum with the error on the left. A run-time panic
  (nil dereference, failed type assertion) is an error value of its own, so that every
  crash of the source is a branch of the model.
\<close>

type_synonym byte = "8 word"

datatype error = Err string | Panic string

subsection \<open>IPv4 addresses and their text\<close>

text \<open>
  \<^verbatim>\<open>net.IP\<close> is a byte slice. Every address the address manager handles is the 4-byte
  IPv4 form, modelled by its big-endian value (\<^verbatim>\<open>binary.BigEndian.Uint32\<close>, which
  \<^verbatim>\<open>lastAddr\<close> itself uses); \<open>ip_bytes\<close> gives the four bytes back
  (\<^verbatim>\<open>binary.BigEndian.PutUint32\<close>). IPv6 is outside the model.
\<close>

type_synonym ipv4 = "32 word"

definition octet :: "nat \<Rightarrow> ipv4 \<Rightarrow> byte" where
  "octet k a = ucast (drop_bit (8 * (3 - k)) a)"

definition ip_bytes :: "ipv4 \<Rightarrow> byte list" where
  "ip_bytes a = [octet 0 a, octet 1 a, octet 2 a, octet 3 a]"

definition ip_of_bytes :: "byte list \<Rightarrow> ipv4" where
  "ip_of_bytes bs = foldl (\<lambda>v b. push_bit 8 v OR ucast b) 0 bs"

definition digit :: "nat \<Rightarrow> char" where
  "digit d = char_of (48 + d)"

fun uitoa :: "nat \<Rightarrow> string" where
  "uitoa n = (if n < 10 then [digit n] else uitoa (n div 10) @ [digit (n mod 10)])"

declare uitoa.simps [simp del]

text \<open>\<^verbatim>\<open>ip.String()\<close> of a 4-byte address: dotted decimal, no leading zeros.\<close>

definition IP_String :: "ipv4 \<Rightarrow> string" where
  "IP_String a =
     uitoa (unat (octet 0 a)) @ ''.'' @ uitoa (unat (octet 1 a)) @ ''.'' @
     uitoa (unat (octet 2 a)) @ ''.'' @ uitoa (unat (octet 3 a))"

text \<open>
  \<^verbatim>\<open>net.ParseIP\<close> on IPv4 text. Go accepts exactly the dotted-decimal form that
  \<^verbatim>\<open>String\<close> prints (four decimal fields, each at most 255, no leading zero), so the
  fields are read loosely and the result is kept only when it prints back to the input.
  The IPv6 forms that \<^verbatim>\<open>net.ParseIP\<close> also reads are outside the model: they are not
  addresses here.
\<close>

fun split_dots :: "string \<Rightarrow> string list" where
  "split_dots [] = [[]]"
| "split_dots (c # cs) =
     (if c = CHR ''.'' then [] # split_dots cs
      else (case split_dots cs of [] \<Rightarrow> [[c]] | f # fs \<Rightarrow> (c # f) # fs))"

definition atoi :: "string \<Rightarrow> nat" where
  "atoi s = foldl (\<lambda>v c. 10 * v + (of_char c - 48)) 0 s"

definition ParseIP :: "string \<Rightarrow> ipv4 option" where
  "ParseIP s =
     (case split_dots s of
        [f0, f1, f2, f3] \<Rightarrow>
          (let a = ip_of_bytes (map (\<lambda>f. of_nat (atoi f)) [f0, f1, f2, f3])
           in if IP_String a = s then Some a else None)
      | _ \<Rightarrow> None)"

subsection \<open>Networks\<close>

text \<open>
  \<^verbatim>\<open>net.IPNet\<close> for an IPv4 prefix: the network address and the mask, both 4 bytes.
  \<^verbatim>\<open>net.CIDRMask(ones, 32)\<close> sets the \<open>ones\<close> high-order bits. \<^verbatim>\<open>net.ParseCIDR\<close>
  is modelled from the decoded prefix on: the address \<open>a\<close> and the length \<open>n\<close> of the
  text \<^verbatim>\<open>a/n\<close>; a length over 32 is Go's parse error.
\<close>

record IPNet =
  IP :: ipv4
  Mask :: ipv4

definition CIDRMask :: "nat \<Rightarrow> ipv4" where
  "CIDRMask ones = push_bit (32 - ones) (- 1)"

definition IP_Mask :: "ipv4 \<Rightarrow> ipv4 \<Rightarrow> ipv4" where
  "IP_Mask a m = a AND m"

definition ParseCIDR :: "ipv4 \<Rightarrow> nat \<Rightarrow> (ipv4 \<times> IPNet) option" where
  "ParseCIDR a n =
     (if n \<le> 32 then Some (a, \<lparr>IP = IP_Mask a (CIDRMask n), Mask = CIDRMask n\<rparr>)
      else None)"

text \<open>The \<^verbatim>\<open>IPNet\<close> that \<^verbatim>\<open>net.ParseCIDR\<close> returns for the address and length of a prefix.\<close>

definition parsed_prefix :: "ipv4 \<times> nat \<Rightarrow> IPNet" where
  "parsed_prefix c = \<lparr>IPNet.IP = IP_Mask (fst c) (CIDRMask (snd c)), Mask = CIDRMask (snd c)\<rparr>"

definition Contains :: "IPNet \<Rightarrow> ipv4 \<Rightarrow> bool" where
  "Contains n a = (IP n AND Mask n = a AND Mask n)"

definition cidr_text :: "ipv4 \<Rightarrow> nat \<Rightarrow> string" where
  "cidr_text a n = IP_String a @ ''/'' @ uitoa n"

section \<open>The address manager (package webtunnelserver)\<close>

definition ipStatusRequested :: int where
  "ipStatusRequested = 1"

definition ipStatusInUse :: int where
  "ipStatusInUse = 2"

record UserInfo =
  username :: string
  hostname :: string
  sessionStart :: nat

text \<open>
  \<^verbatim>\<open>data any\<close> is \<open>None\<close> for the nil interface; \<^verbatim>\<open>userinfo *UserInfo\<close> is \<open>None\<close>
  for the nil pointer. Every entry of the map is a pointer to a struct of its own, so the
  map holds the structs themselves.
\<close>

record 'a ipData =
  ipStatus :: int
  data :: "'a option"
  userinfo :: "UserInfo option"

record 'a IPPam =
  prefix :: string
  allocations :: "string \<rightharpoonup> 'a ipData"
  ip :: ipv4
  ipnet :: IPNet
  net :: ipv4
  bcast :: ipv4

text \<open>\<^verbatim>\<open>inc\<close> increments the byte slice in place, carrying from the last byte.\<close>

fun inc_loop :: "nat \<Rightarrow> byte list \<Rightarrow> byte list" where
  "inc_loop 0 bs = bs"
| "inc_loop (Suc j) bs =
     (let bs' = bs[j := bs ! j + 1]
      in if bs' ! j > 0 then bs' else inc_loop j bs')"

definition inc :: "ipv4 \<Rightarrow> ipv4" where
  "inc a = ip_of_bytes (inc_loop 4 (ip_bytes a))"

definition lastAddr :: "IPNet \<Rightarrow> ipv4" where
  "lastAddr n = IP n OR NOT (Mask n)"

definition NewIPPam :: "ipv4 \<Rightarrow> nat \<Rightarrow> error + 'a IPPam" where
  "NewIPPam a n =
     (case ParseCIDR a n of
        None \<Rightarrow> Inl (Err (''invalid CIDR address: '' @ cidr_text a n))
      | Some (ip0, ipnet0) \<Rightarrow>
          (let bcast0 = lastAddr ipnet0;
               net0 = IP_Mask ip0 (Mask ipnet0);
               ippam = \<lparr>prefix = cidr_text a n, allocations = Map.empty, ip = ip0,
                        ipnet = ipnet0, net = net0, bcast = bcast0\<rparr>;
               ippam = ippam\<lparr>allocations := (allocations ippam)
                        (IP_String bcast0 \<mapsto>
                           \<lparr>ipStatus = ipStatusInUse, data = None, userinfo = None\<rparr>)\<rparr>;
               ippam = ippam\<lparr>allocations := (allocations ippam)
                        (IP_String net0 \<mapsto>
                           \<lparr>ipStatus = ipStatusInUse, data = None, userinfo = None\<rparr>)\<rparr>
           in Inr ippam))"

definition isValidIP :: "'a IPPam \<Rightarrow> string \<Rightarrow> bool" where
  "isValidIP i ipAddr =
     (case ParseIP ipAddr of None \<Rightarrow> False | Some a \<Rightarrow> Contains (ipnet i) a)"

text \<open>
  The scan of \<^verbatim>\<open>AcquireIP\<close>: from the network address upwards while the address is in
  the network. The loop has no bound of its own, so it is a partial function: \<open>None\<close> is
  a scan that never returns.
\<close>

datatype scan_result = Found ipv4 | Exhausted

partial_function (option) AcquireIP_scan ::
  "(string \<rightharpoonup> 'a ipData) \<Rightarrow> IPNet \<Rightarrow> ipv4 \<Rightarrow> scan_result option" where
  "AcquireIP_scan al n a =
     (if Contains n a
      then (if al (IP_String a) = None then Some (Found a)
            else AcquireIP_scan al n (inc a))
      else Some Exhausted)"

definition AcquireIP :: "'a IPPam \<Rightarrow> 'a option \<Rightarrow> ('a IPPam \<times> (error + string)) option" where
  "AcquireIP i d =
     (case AcquireIP_scan (allocations i) (ipnet i) (IP_Mask (ip i) (Mask (ipnet i))) of
        None \<Rightarrow> None
      | Some Exhausted \<Rightarrow> Some (i, Inl (Err ''IPs exhausted''))
      | Some (Found a) \<Rightarrow>
          Some (i\<lparr>allocations := (allocations i)
                   (IP_String a \<mapsto>
                      \<lparr>ipStatus = ipStatusRequested, data = d, userinfo = None\<rparr>)\<rparr>,
                Inr (IP_String a)))"

text \<open>\<^verbatim>\<open>time.Now()\<close> is the argument \<open>now\<close>.\<close>

definition SetIPActiveWithUserInfo ::
  "'a IPPam \<Rightarrow> string \<Rightarrow> string \<Rightarrow> string \<Rightarrow> nat \<Rightarrow> 'a IPPam \<times> error option" where
  "SetIPActiveWithUserInfo i key uname hname now =
     (case allocations i key of
        None \<Rightarrow> (i, Some (Err ''IP not available''))
      | Some v \<Rightarrow>
          (i\<lparr>allocations := (allocations i)
              (key \<mapsto> v\<lparr>ipStatus := ipStatusInUse,
                          userinfo := Some \<lparr>username = uname, hostname = hname,
                                             sessionStart = now\<rparr>\<rparr>)\<rparr>,
           None))"

definition GetData :: "'a IPPam \<Rightarrow> string \<Rightarrow> error + 'a option" where
  "GetData i key =
     (case allocations i key of
        None \<Rightarrow> Inl (Err ''IP not allocated'')
      | Some v \<Rightarrow>
          if ipStatus v \<noteq> ipStatusInUse then Inl (Err ''IP not marked in use'')
          else Inr (data v))"

definition GetUserinfo :: "'a IPPam \<Rightarrow> string \<Rightarrow> error + UserInfo" where
  "GetUserinfo i key =
     (case allocations i key of
        None \<Rightarrow> Inl (Err ''IP not available or not marked in use'')
      | Some v \<Rightarrow>
          if ipStatus v \<noteq> ipStatusInUse
          then Inl (Err ''IP not available or not marked in use'')
          else (case userinfo v of
                  None \<Rightarrow> Inl (Panic ''nil pointer dereference'')
                | Some u \<Rightarrow> Inr u))"

definition ReleaseIP :: "'a IPPam \<Rightarrow> string \<Rightarrow> 'a IPPam \<times> error option" where
  "ReleaseIP i key =
     (if IP_String (net i) = key \<or> IP_String (bcast i) = key
      then (i, Some (Err ''cannot release network or broadcast address''))
      else if allocations i key = None then (i, Some (Err ''IP not allocated''))
      else (i\<lparr>allocations := (allocations i)(key := None)\<rparr>, None))"

definition AcquireSpecificIP ::
  "'a IPPam \<Rightarrow> string \<Rightarrow> 'a option \<Rightarrow> 'a IPPam \<times> error option" where
  "AcquireSpecificIP i key d =
     (if \<not> isValidIP i key then (i, Some (Err (''not a valid IP: '' @ key)))
      else if allocations i key \<noteq> None then (i, Some (Err ''IP already in use''))
      else (i\<lparr>allocations := (allocations i)
               (key \<mapsto> \<lparr>ipStatus = ipStatusInUse, data = d, userinfo = None\<rparr>)\<rparr>,
            None))"

text \<open>Successive calls of \<^verbatim>\<open>AcquireIP\<close>, one per handle, with the result of each.\<close>

fun AcquireIP_seq ::
  "'a IPPam \<Rightarrow> 'a option list \<Rightarrow> ('a IPPam \<times> (error + string) list) option" where
  "AcquireIP_seq i [] = Some (i, [])"
| "AcquireIP_seq i (d # ds) =
     (case AcquireIP i d of
        None \<Rightarrow> None
      | Some (i', r) \<Rightarrow>
          (case AcquireIP_seq i' ds of
             None \<Rightarrow> None
           | Some (i'', rs) \<Rightarrow> Some (i'', r # rs)))"

subsection \<open>The addresses of a pool\<close>

text \<open>
  The addresses of the network of \<^verbatim>\<open>a/n\<close> in ascending order, and its host addresses:
  all but the network address, the broadcast address and the gateway \<open>g\<close>.
\<close>

definition network_addrs :: "ipv4 \<Rightarrow> nat \<Rightarrow> ipv4 list" where
  "network_addrs a n = map (\<lambda>j. IP_Mask a (CIDRMask n) + of_nat j) [0 ..< 2 ^ (32 - n)]"

definition host_addrs :: "ipv4 \<Rightarrow> nat \<Rightarrow> ipv4 \<Rightarrow> ipv4 list" where
  "host_addrs a n g =
     filter (\<lambda>x. x \<noteq> IP_Mask a (CIDRMask n) \<and>
                 x \<noteq> lastAddr \<lparr>IP = IP_Mask a (CIDRMask n), Mask = CIDRMask n\<rparr> \<and> x \<noteq> g)
       (network_addrs a n)"

text \<open>
  What \<^verbatim>\<open>NewIPPam\<close> sets up for \<^verbatim>\<open>a/n\<close> and no operation changes: the parsed prefix,
  its network and broadcast addresses, and an entry for each of the two.
\<close>

definition pool :: "ipv4 \<Rightarrow> nat \<Rightarrow> 'a IPPam \<Rightarrow> bool" where
  "pool a n i =
     (n \<le> 32 \<and> ip i = a \<and>
      ipnet i = \<lparr>IP = IP_Mask a (CIDRMask n), Mask = CIDRMask n\<rparr> \<and>
      net i = IP_Mask a (CIDRMask n) \<and> bcast i = lastAddr (ipnet i) \<and>
      allocations i (IP_String (net i)) \<noteq> None \<and>
      allocations i (IP_String (bcast i)) \<noteq> None)"

section \<open>Packets (gopacket)\<close>

text \<open>
  The layer structs of gopacket with the fields the program reads or sets; a field it
  leaves out of a struct literal has Go's zero value and is not listed. Hardware and
  protocol addresses are byte slices; a nil slice is \<open>[]\<close>.

  Decoding (\<^verbatim>\<open>gopacket.NewPacket\<close>) and serialisation (\<^verbatim>\<open>gopacket.SerializeLayers\<close> with
  \<^verbatim>\<open>FixLengths\<close> and \<^verbatim>\<open>ComputeChecksums\<close>) are the library's: they are the two functions of
  \<open>gopacket\<close>, given to every function that calls them. A decoded packet lists its
  layers by type, \<open>None\<close> for a layer the packet does not have
  (\<^verbatim>\<open>packet.Layer(t)\<close> is nil). What is written to a device is what the serialiser
  returns, of any type \<open>'f\<close>.
\<close>

datatype LayerType = LayerTypeEthernet | LayerTypeIPv4

record Ethernet =
  SrcMAC :: "byte list"
  DstMAC :: "byte list"
  EthernetType :: "16 word"
  Payload :: "byte list"

record ARP =
  AddrType :: byte
  Protocol :: "16 word"
  HwAddressSize :: byte
  ProtAddressSize :: byte
  Operation :: "16 word"
  SourceHwAddress :: "byte list"
  SourceProtAddress :: "byte list"
  DstHwAddress :: "byte list"
  DstProtAddress :: "byte list"

record IPv4 =
  Version :: byte
  TTL :: byte
  SrcIP :: "byte list"
  DstIP :: "byte list"
  Protocol :: byte

record UDP =
  SrcPort :: "16 word"
  DstPort :: "16 word"

record DHCPOption =
  Type :: byte
  Length :: byte
  Data :: "byte list"

record DHCPv4 =
  Operation :: byte
  HardwareType :: byte
  HardwareLen :: byte
  Xid :: "32 word"
  YourClientIP :: "byte list"
  NextServerIP :: "byte list"
  ClientHWAddr :: "byte list"
  Options :: "DHCPOption list"

datatype Layer =
  LEthernet Ethernet | LARP ARP | LIPv4 IPv4 | LUDP UDP | LDHCPv4 DHCPv4

record Packet =
  EthernetLayer :: "Ethernet option"
  ARPLayer :: "ARP option"
  IPv4Layer :: "IPv4 option"
  UDPLayer :: "UDP option"
  DHCPv4Layer :: "DHCPv4 option"

record 'f gopacket =
  NewPacket :: "byte list \<Rightarrow> LayerType \<Rightarrow> Packet"
  SerializeLayers :: "Layer list \<Rightarrow> error + 'f"

definition EthernetTypeIPv4 :: "16 word" where "EthernetTypeIPv4 = 0x0800"
definition EthernetTypeARP :: "16 word" where "EthernetTypeARP = 0x0806"
definition LinkTypeEthernet :: byte where "LinkTypeEthernet = 1"
definition IPProtocolUDP :: byte where "IPProtocolUDP = 17"
definition ARPRequest :: "16 word" where "ARPRequest = 1"
definition ARPReply :: "16 word" where "ARPReply = 2"
definition DHCPOpReply :: byte where "DHCPOpReply = 2"
definition DHCPMsgTypeDiscover :: byte where "DHCPMsgTypeDiscover = 1"
definition DHCPMsgTypeOffer :: byte where "DHCPMsgTypeOffer = 2"
definition DHCPMsgTypeRequest :: byte where "DHCPMsgTypeRequest = 3"
definition DHCPMsgTypeAck :: byte where "DHCPMsgTypeAck = 5"
definition DHCPMsgTypeRelease :: byte where "DHCPMsgTypeRelease = 7"
definition DHCPOptSubnetMask :: byte where "DHCPOptSubnetMask = 1"
definition DHCPOptDNS :: byte where "DHCPOptDNS = 6"
definition DHCPOptLeaseTime :: byte where "DHCPOptLeaseTime = 51"
definition DHCPOptMessageType :: byte where "DHCPOptMessageType = 53"
definition DHCPOptServerID :: byte where "DHCPOptServerID = 54"
definition DHCPOptClasslessStaticRoute :: byte where "DHCPOptClasslessStaticRoute = 121"

text \<open>\<^verbatim>\<open>layers.NewDHCPOption\<close>: the length is the data's, as a \<^verbatim>\<open>uint8\<close>.\<close>

definition NewDHCPOption :: "byte \<Rightarrow> byte list \<Rightarrow> DHCPOption" where
  "NewDHCPOption t d = \<lparr>Type = t, Length = of_nat (length d), Data = d\<rparr>"

text \<open>\<^verbatim>\<open>binary.BigEndian.PutUint32\<close> into a slice of four bytes.\<close>

definition PutUint32 :: "32 word \<Rightarrow> byte list" where
  "PutUint32 v = [ucast (drop_bit 24 v), ucast (drop_bit 16 v), ucast (drop_bit 8 v), ucast v]"

text \<open>
  \<^verbatim>\<open>mask.Size()\<close> of a 4-byte mask: the number of leading ones of a mask that is ones
  followed by zeros, and 0 of any other mask.
\<close>

definition Mask_Size :: "ipv4 \<Rightarrow> nat" where
  "Mask_Size m = (case find (\<lambda>n. CIDRMask n = m) [0 ..< 33] of None \<Rightarrow> 0 | Some n \<Rightarrow> n)"

text \<open>
  \<^verbatim>\<open>ip.To4()\<close> and \<^verbatim>\<open>ip.IsMulticast()\<close> on a byte slice: a 4-byte address, or a 16-byte
  address that is an IPv4 address mapped into IPv6.
\<close>

definition To4 :: "byte list \<Rightarrow> byte list option" where
  "To4 a =
     (if length a = 4 then Some a
      else if length a = 16 \<and> take 10 a = replicate 10 0 \<and> a ! 10 = 0xff \<and> a ! 11 = 0xff
      then Some (drop 12 a)
      else None)"

definition IsMulticast :: "byte list \<Rightarrow> bool" where
  "IsMulticast a =
     (case To4 a of
        Some ip4 \<Rightarrow> hd ip4 AND 0xf0 = 0xe0
      | None \<Rightarrow> length a = 16 \<and> hd a = 0xff)"

section \<open>The client (package webtunnelclient)\<close>

text \<open>
  \<^verbatim>\<open>Interface\<close>: the addresses are what \<^verbatim>\<open>net.ParseIP(s).To4()\<close> gave at configuration,
  four bytes or nil. A route prefix is an IPv4 prefix as \<^verbatim>\<open>net.ParseCIDR\<close> returns it. The
  embedded device is its type flag \<open>IsTAP\<close>; its reads and writes are effects.
\<close>

record Interface =
  IP :: "byte list"
  GWIP :: "byte list"
  Netmask :: "byte list"
  DNS :: "byte list list"
  RoutePrefix :: "IPNet list"
  localHWAddr :: "byte list"
  gwHWAddr :: "byte list"
  leaseTime :: "32 word"
  IsTAP :: bool

record WebtunnelClient =
  ifce :: Interface

text \<open>
  What a function does to the outside, in order: a frame handed to the device's
  \<^verbatim>\<open>Write\<close>, a message handed to the WebSocket's \<^verbatim>\<open>WriteMessage\<close> (its type and payload),
  an error sent on the \<^verbatim>\<open>Error\<close> channel. What the device and the WebSocket answer
  to a call is the environment's: the error each returns, \<open>None\<close> for nil.
\<close>

datatype 'f effect =
  IfceWrite 'f | WSWriteMessage int "byte list" | ErrorSend error

record environment =
  Write_error :: "error option"
  WriteMessage_error :: "error option"
  IsCloseNormal :: bool

definition TextMessage :: int where "TextMessage = 1"
definition BinaryMessage :: int where "BinaryMessage = 2"

definition error_text :: "error \<Rightarrow> string" where
  "error_text e = (case e of Err s \<Rightarrow> s | Panic s \<Rightarrow> s)"

text \<open>The loops of \<^verbatim>\<open>buildDHCPopts\<close>: one DNS option per server, one route entry per prefix.\<close>

fun dns_loop :: "DHCPOption list \<Rightarrow> byte list list \<Rightarrow> DHCPOption list" where
  "dns_loop opt [] = opt"
| "dns_loop opt (s # ss) = dns_loop (opt @ [NewDHCPOption DHCPOptDNS s]) ss"

fun route_loop :: "byte list \<Rightarrow> byte list \<Rightarrow> IPNet list \<Rightarrow> byte list" where
  "route_loop gw route [] = route"
| "route_loop gw route (n # ns) =
     (let netAddr = ip_bytes (IPNet.IP n);
          mask = Mask_Size (Mask n);
          b = mask div 8;
          b = (if mask mod 8 > 0 then b + 1 else b);
          netAddr = take b netAddr;
          route = route @ [of_nat mask];
          route = route @ netAddr;
          route = route @ gw
      in route_loop gw route ns)"

definition buildDHCPopts :: "WebtunnelClient \<Rightarrow> 32 word \<Rightarrow> byte \<Rightarrow> DHCPOption list" where
  "buildDHCPopts w lease msgType =
     (let tm = PutUint32 lease;
          opt = dns_loop [] (DNS (ifce w));
          opt = opt @ [NewDHCPOption DHCPOptSubnetMask (Netmask (ifce w))];
          opt = opt @ [NewDHCPOption DHCPOptLeaseTime tm];
          opt = opt @ [NewDHCPOption DHCPOptMessageType [msgType]];
          opt = opt @ [NewDHCPOption DHCPOptServerID (GWIP (ifce w))];
          route = route_loop (GWIP (ifce w)) [] (RoutePrefix (ifce w));
          opt = opt @ [NewDHCPOption DHCPOptClasslessStaticRoute route]
      in opt)"

text \<open>
  The message type of a request: the data of the last message-type option, 0 without
  one. \<^verbatim>\<open>v.Data[0]\<close> on an option without data is an index out of range.
\<close>

fun msgType_loop :: "byte \<Rightarrow> DHCPOption list \<Rightarrow> error + byte" where
  "msgType_loop mt [] = Inr mt"
| "msgType_loop mt (v # vs) =
     (if Type v = DHCPOptMessageType
      then (case Data v of
              [] \<Rightarrow> Inl (Panic ''index out of range'')
            | b # _ \<Rightarrow> msgType_loop b vs)
      else msgType_loop mt vs)"

text \<open>
  \<^verbatim>\<open>handleDHCP\<close> and \<^verbatim>\<open>handleArp\<close> return their effects and the error they return. The
  type assertions on the layers panic on a layer the packet does not have.
  \<^verbatim>\<open>SetNetworkLayerForChecksum\<close> fails only for a layer that is not IP.
\<close>

definition handleDHCP ::
  "'f gopacket \<Rightarrow> environment \<Rightarrow> WebtunnelClient \<Rightarrow> Packet \<Rightarrow> 'f effect list \<times> error option" where
  "handleDHCP g env w packet =
     (case (DHCPv4Layer packet, UDPLayer packet, IPv4Layer packet, EthernetLayer packet) of
        (Some dhcp, Some udp, Some ipv4, Some eth) \<Rightarrow>
          (case msgType_loop 0 (Options dhcp) of
             Inl e \<Rightarrow> ([], Some e)
           | Inr msgType \<Rightarrow>
              (let dhcpl = \<lparr>Operation = DHCPOpReply, HardwareType = LinkTypeEthernet,
                            HardwareLen = HardwareLen dhcp, Xid = Xid dhcp,
                            YourClientIP = IP (ifce w), NextServerIP = GWIP (ifce w),
                            ClientHWAddr = SrcMAC eth, Options = []\<rparr>;
                   dhcpl =
                     (if msgType = DHCPMsgTypeDiscover
                      then dhcpl\<lparr>Options :=
                             buildDHCPopts w (leaseTime (ifce w)) DHCPMsgTypeOffer\<rparr>
                      else if msgType = DHCPMsgTypeRequest
                      then dhcpl\<lparr>Options :=
                             buildDHCPopts w (leaseTime (ifce w)) DHCPMsgTypeAck\<rparr>
                      else dhcpl);
                   ethl = \<lparr>SrcMAC = gwHWAddr (ifce w),
                           DstMAC = [0xFF, 0xFF, 0xFF, 0xFF, 0xFF, 0xFF],
                           EthernetType = EthernetTypeIPv4, Payload = []\<rparr>;
                   ipv4l = \<lparr>Version = Version ipv4, TTL = TTL ipv4, SrcIP = GWIP (ifce w),
                            DstIP = [255, 255, 255, 255], Protocol = IPProtocolUDP\<rparr>;
                   udpl = \<lparr>SrcPort = DstPort udp, DstPort = SrcPort udp\<rparr>
               in case SerializeLayers g [LEthernet ethl, LIPv4 ipv4l, LUDP udpl, LDHCPv4 dhcpl] of
                    Inl e \<Rightarrow> ([], Some (Err (''error serializelayer '' @ error_text e)))
                  | Inr buffer \<Rightarrow> ([IfceWrite buffer], Write_error env)))
      | _ \<Rightarrow> ([], Some (Panic ''interface conversion: interface is nil'')))"

definition handleArp ::
  "'f gopacket \<Rightarrow> environment \<Rightarrow> WebtunnelClient \<Rightarrow> Packet \<Rightarrow> 'f effect list \<times> error option" where
  "handleArp g env w packet =
     (case (ARPLayer packet, EthernetLayer packet) of
        (Some arp, Some eth) \<Rightarrow>
          if ARP.Operation arp \<noteq> ARPRequest then ([], None)
          else
            (let arpl = \<lparr>AddrType = AddrType arp, Protocol = ARP.Protocol arp,
                         HwAddressSize = HwAddressSize arp,
                         ProtAddressSize = ProtAddressSize arp,
                         Operation = ARPReply,
                         SourceHwAddress = gwHWAddr (ifce w),
                         SourceProtAddress = DstProtAddress arp,
                         DstHwAddress = SourceHwAddress arp,
                         DstProtAddress = SourceProtAddress arp\<rparr>;
                 ethl = \<lparr>SrcMAC = gwHWAddr (ifce w), DstMAC = SrcMAC eth,
                         EthernetType = EthernetTypeARP, Payload = []\<rparr>
             in case SerializeLayers g [LEthernet ethl, LARP arpl] of
                  Inl e \<Rightarrow> ([], Some (Err (''error Serializelayer '' @ error_text e)))
                | Inr buffer \<Rightarrow> ([IfceWrite buffer], Write_error env))
      | _ \<Rightarrow> ([], Some (Panic ''interface conversion: interface is nil'')))"

text \<open>
  One turn of the loop of \<^verbatim>\<open>processNetPacket\<close>, for what \<^verbatim>\<open>Read\<close> returned: an error
  with the count of bytes, or the buffer \<open>pkt\<close> as the read left it. The result is the effects of the turn and
  how it ends: with the next turn, with the return of the function, or with a panic.
\<close>

datatype ending = Continue | Return | Crash string

definition WriteMessage_ws ::
  "environment \<Rightarrow> byte list \<Rightarrow> 'f effect list \<times> ending" where
  "WriteMessage_ws env oPkt =
     (case WriteMessage_error env of
        None \<Rightarrow> ([WSWriteMessage BinaryMessage oPkt], Continue)
      | Some e \<Rightarrow>
          if IsCloseNormal env then ([WSWriteMessage BinaryMessage oPkt], Return)
          else ([WSWriteMessage BinaryMessage oPkt,
                 ErrorSend (Err (''error writing to websocket: '' @ error_text e))], Return))"

definition after_responder ::
  "string \<Rightarrow> 'f effect list \<times> error option \<Rightarrow> 'f effect list \<times> ending" where
  "after_responder what r =
     (case snd r of
        None \<Rightarrow> (fst r, Continue)
      | Some (Panic p) \<Rightarrow> (fst r, Crash p)
      | Some (Err e) \<Rightarrow> (fst r @ [ErrorSend (Err (what @ e))], Continue))"

definition processNetPacket_turn ::
  "'f gopacket \<Rightarrow> environment \<Rightarrow> WebtunnelClient \<Rightarrow> error \<times> nat + byte list \<Rightarrow>
     'f effect list \<times> ending" where
  "processNetPacket_turn g env w rd =
     (case rd of
        Inl (e, n) \<Rightarrow>
          ([ErrorSend (Err (''error reading Tunnel '' @ error_text e @ ''. Sz:'' @ uitoa n))],
           Return)
      | Inr pkt \<Rightarrow>
          if IsTAP (ifce w) then
            (let packet = NewPacket g pkt LayerTypeEthernet
             in if ARPLayer packet \<noteq> None
                then after_responder ''err sending arp '' (handleArp g env w packet)
                else if DHCPv4Layer packet \<noteq> None
                then after_responder ''err sending dhcp  '' (handleDHCP g env w packet)
                else (case IPv4Layer packet of
                        None \<Rightarrow> ([], Continue)
                      | Some ipv4 \<Rightarrow>
                          if IsMulticast (DstIP ipv4) then ([], Continue)
                          else (case EthernetLayer packet of
                                  None \<Rightarrow>
                                    ([], Crash ''interface conversion: interface is nil'')
                                | Some eth \<Rightarrow> WriteMessage_ws env (Payload eth))))
          else WriteMessage_ws env pkt)"

subsection \<open>The DHCP reply in the words of the specification\<close>

text \<open>
  For comparison with \<^verbatim>\<open>buildDHCPopts\<close>: a route entry is the prefix length in one byte,
  the \<open>\<lceil>prefix_len / 8\<rceil>\<close> high-order bytes of the network and the gateway; the options
  are one DNS option per server, the subnet mask, the lease time, the message type, the
  server identifier and the classless static routes, in this order.
\<close>

definition spec_route_entry :: "byte list \<Rightarrow> ipv4 \<Rightarrow> nat \<Rightarrow> byte list" where
  "spec_route_entry gw network prefix_len =
     [of_nat prefix_len] @ take ((prefix_len + 7) div 8) (ip_bytes network) @ gw"

definition spec_options ::
  "WebtunnelClient \<Rightarrow> byte \<Rightarrow> (ipv4 \<times> nat) list \<Rightarrow> DHCPOption list" where
  "spec_options w reply_type cidrs =
     map (NewDHCPOption DHCPOptDNS) (Interface.DNS (ifce w)) @
     [NewDHCPOption DHCPOptSubnetMask (Interface.Netmask (ifce w)),
      NewDHCPOption DHCPOptLeaseTime (PutUint32 (leaseTime (ifce w))),
      NewDHCPOption DHCPOptMessageType [reply_type],
      NewDHCPOption DHCPOptServerID (GWIP (ifce w)),
      NewDHCPOption DHCPOptClasslessStaticRoute
        (concat (map (\<lambda>(a, k). spec_route_entry (GWIP (ifce w)) (IP_Mask a (CIDRMask k)) k)
                   cidrs))]"

section \<open>The server (package webtunnelserver)\<close>

text \<open>
  Modelled from the spec: the declaration of \<^verbatim>\<open>ClientConfig\<close> is in package
  \<^verbatim>\<open>webtunnelcommon\<close>, which is not among the sources. The fields are those of the spec's
  data model; a field that a struct literal leaves out is the empty string or list.
\<close>

record ClientConfig =
  Ip :: string
  GWIp :: string
  Netmask :: string
  DNS :: "string list"
  RoutePrefix :: "string list"

text \<open>
  The value stored with a lease is a connection (a \<^verbatim>\<open>*websocket.Conn\<close>, here its number)
  or, for the gateway, the empty struct.
\<close>

datatype any = Conn nat | EmptyStruct

record WebTunnelServer =
  serverIPPort :: string
  routePrefix :: "string list"
  clientNetPrefix :: string
  gwIP :: string
  ipam :: "any IPPam"

text \<open>
  \<^verbatim>\<open>NewWebTunnelServer\<close>, after the TUN device is up: the client network is given
  decoded, as to \<open>NewIPPam\<close>. The netmask of the device is used for the device only.
\<close>

definition NewWebTunnelServer ::
  "string \<Rightarrow> string \<Rightarrow> string \<Rightarrow> ipv4 \<Rightarrow> nat \<Rightarrow> string list \<Rightarrow> error + WebTunnelServer" where
  "NewWebTunnelServer addr gw tunNetmask a n routes =
     (case NewIPPam a n of
        Inl e \<Rightarrow> Inl e
      | Inr i \<Rightarrow>
          (case AcquireSpecificIP i gw (Some EmptyStruct) of
             (_, Some e) \<Rightarrow> Inl e
           | (i', None) \<Rightarrow>
               Inr \<lparr>serverIPPort = addr, routePrefix = routes,
                    clientNetPrefix = cidr_text a n, gwIP = gw, ipam = i'\<rparr>))"

text \<open>
  Effects of the server: a message or a JSON value written to a connection, a packet
  written to the TUN device, an error (or nil) sent on the \<^verbatim>\<open>Error\<close> channel.
\<close>

datatype server_effect =
  ConnWriteMessage nat int "byte list" | ConnWriteJSON nat ClientConfig
  | TunWrite "byte list" | ServerErrorSend "error option"

text \<open>
  \<^verbatim>\<open>wsEndpoint\<close> in two parts. The first runs once a connection is upgraded: it acquires
  the address; \<open>None\<close> is a call that does not return. The second is one turn of the read
  loop, for what \<^verbatim>\<open>ReadMessage\<close> returned: an error, or a message type and a payload.
\<close>

definition wsEndpoint_acquire ::
  "WebTunnelServer \<Rightarrow> nat \<Rightarrow> (WebTunnelServer \<times> string option) option" where
  "wsEndpoint_acquire r conn =
     (case AcquireIP (ipam r) (Some (Conn conn)) of
        None \<Rightarrow> None
      | Some (_, Inl e) \<Rightarrow> Some (r, None)
      | Some (i', Inr a) \<Rightarrow> Some (r\<lparr>ipam := i'\<rparr>, Some a))"

definition wsEndpoint_turn ::
  "environment \<Rightarrow> WebTunnelServer \<Rightarrow> nat \<Rightarrow> string \<Rightarrow> error + int \<times> byte list \<Rightarrow>
     WebTunnelServer \<times> server_effect list \<times> ending" where
  "wsEndpoint_turn env r conn a rd =
     (case rd of
        Inl e \<Rightarrow> (r\<lparr>ipam := fst (ReleaseIP (ipam r) a)\<rparr>, [], Return)
      | Inr (mt, message) \<Rightarrow>
          if mt = TextMessage then
            (if message = map (\<lambda>c. of_char c) ''getConfig''
             then (let cfg = \<lparr>Ip = a, GWIp = gwIP r, Netmask = [], DNS = [],
                              RoutePrefix = routePrefix r\<rparr>
                   in (r, [ConnWriteJSON conn cfg],
                       if WriteMessage_error env = None then Continue else Return))
             else (r, [], Continue))
          else if mt = BinaryMessage then
            (case Write_error env of
               None \<Rightarrow> (r, [TunWrite message], Continue)
             | Some e \<Rightarrow>
                 (r, [TunWrite message,
                      ServerErrorSend (Some (Err (''error writing to tunnel '' @ error_text e)))],
                  Return))
          else (r, [], Continue))"

text \<open>
  \<^verbatim>\<open>ip.String()\<close> of a byte slice: \<^verbatim>\<open><nil>\<close> for the empty slice, dotted decimal for four
  bytes, a question mark and the bytes in hexadecimal for another length. (The text of a
  16-byte address is outside the model; the IPv4 decoder gives four bytes.)
\<close>

definition hexString :: "byte list \<Rightarrow> string" where
  "hexString bs =
     concat (map (\<lambda>b. [''0123456789abcdef'' ! (unat b div 16),
                        ''0123456789abcdef'' ! (unat b mod 16)]) bs)"

definition String_of_IP :: "byte list \<Rightarrow> string" where
  "String_of_IP a =
     (if a = [] then ''<nil>''
      else if length a = 4 then IP_String (ip_of_bytes a)
      else ''?'' @ hexString a)"

text \<open>
  One turn of the loop of \<^verbatim>\<open>processTUNPacket\<close>. The buffer \<open>pkt\<close> is made once, before
  the loop; a read overwrites its first bytes and leaves the rest. What is written to
  the WebSocket is the buffer; an error of that write is logged and the loop goes on.
  The deferred send of nil on the \<^verbatim>\<open>Error\<close> channel runs when the function returns and
  when it panics.
\<close>

definition Read_into :: "byte list \<Rightarrow> byte list \<Rightarrow> byte list" where
  "Read_into pkt bytes = take (length pkt) bytes @ drop (length bytes) pkt"

definition processTUNPacket_turn ::
  "'f gopacket \<Rightarrow> environment \<Rightarrow> WebTunnelServer \<Rightarrow> byte list \<Rightarrow> error + byte list \<Rightarrow>
     byte list \<times> server_effect list \<times> ending" where
  "processTUNPacket_turn g env r pkt rd =
     (case rd of
        Inl e \<Rightarrow>
          (pkt, [ServerErrorSend (Some (Err (''error reading from tunnel '' @ error_text e))),
                 ServerErrorSend None], Return)
      | Inr bytes \<Rightarrow>
          (let pkt = Read_into pkt bytes;
               packet = NewPacket g pkt LayerTypeIPv4
           in case IPv4Layer packet of
                None \<Rightarrow> (pkt, [ServerErrorSend None], Crash ''nil pointer dereference'')
              | Some ipv4 \<Rightarrow>
                  (case GetData (ipam r) (String_of_IP (DstIP ipv4)) of
                     Inl e \<Rightarrow> (pkt, [], Continue)
                   | Inr d \<Rightarrow>
                       (case d of
                          Some (Conn ws) \<Rightarrow>
                            (pkt, [ConnWriteMessage ws BinaryMessage pkt], Continue)
                        | _ \<Rightarrow>
                            (pkt, [ServerErrorSend None], Crash ''interface conversion'')))))"

section \<open>Example pools\<close>

text \<open>
  The pool of \<^verbatim>\<open>192.168.0.0/29\<close> as \<^verbatim>\<open>NewIPPam\<close> builds it, the same pool with the gateway
  \<^verbatim>\<open>192.168.0.1\<close> reserved and three connections holding leases, and a pool of
  \<^verbatim>\<open>0.0.0.0/0\<close> in which every address has an entry. Connection handles are numbers.
\<close>

definition sentinel :: "'a ipData" where
  "sentinel = \<lparr>ipStatus = ipStatusInUse, data = None, userinfo = None\<rparr>"

definition full_pool0 :: "nat IPPam" where
  "full_pool0 =
     \<lparr>prefix = ''0.0.0.0/0'',
      allocations = (\<lambda>key. case ParseIP key of None \<Rightarrow> None | Some a \<Rightarrow> Some sentinel),
      ip = 0, ipnet = \<lparr>IPNet.IP = 0, Mask = 0\<rparr>, net = 0, bcast = 0xFFFFFFFF\<rparr>"

definition conn_entry :: "int \<Rightarrow> nat \<Rightarrow> nat ipData" where
  "conn_entry st c = \<lparr>ipStatus = st, data = Some c, userinfo = None\<rparr>"

definition pool29 :: "nat IPPam" where
  "pool29 =
     \<lparr>prefix = ''192.168.0.0/29'',
      allocations = [''192.168.0.7'' \<mapsto> sentinel, ''192.168.0.0'' \<mapsto> sentinel],
      ip = 0xC0A80000, ipnet = \<lparr>IPNet.IP = 0xC0A80000, Mask = 0xFFFFFFF8\<rparr>,
      net = 0xC0A80000, bcast = 0xC0A80007\<rparr>"

definition pool29_busy :: "nat IPPam" where
  "pool29_busy =
     pool29\<lparr>allocations :=
       [''192.168.0.7'' \<mapsto> sentinel, ''192.168.0.0'' \<mapsto> sentinel,
        ''192.168.0.1'' \<mapsto> conn_entry ipStatusInUse 0,
        ''192.168.0.2'' \<mapsto> conn_entry ipStatusRequested 1,
        ''192.168.0.3'' \<mapsto> conn_entry ipStatusRequested 2,
        ''192.168.0.4'' \<mapsto> conn_entry ipStatusRequested 3]\<rparr>"

section \<open>Example client and packets\<close>

text \<open>
  A decoder that reads the given packet from any bytes and a serialiser that returns the
  layers it is given; a device and a WebSocket that return no error; the client of the
  specification's DHCP scenario; a DHCP request of a given message type, an ARP request
  in a frame from a given source, and an IPv4 multicast packet.
\<close>

definition gopacket_of :: "Packet \<Rightarrow> (Layer list) gopacket" where
  "gopacket_of p = \<lparr>NewPacket = (\<lambda>bytes first. p), SerializeLayers = (\<lambda>ls. Inr ls)\<rparr>"

definition env_ok :: environment where
  "env_ok = \<lparr>Write_error = None, WriteMessage_error = None, IsCloseNormal = False\<rparr>"

definition gw_hw :: "byte list" where
  "gw_hw = [0x02, 0xAA, 0xBB, 0xCC, 0xDD, 0xEE]"

definition client_mac :: "byte list" where
  "client_mac = [0x02, 0x00, 0x00, 0x00, 0x00, 0x01]"

definition client_ex :: WebtunnelClient where
  "client_ex =
     \<lparr>ifce = \<lparr>IP = [10, 0, 0, 2], GWIP = [10, 0, 0, 1], Netmask = [255, 255, 255, 0],
              DNS = [[8, 8, 8, 8]], RoutePrefix = [parsed_prefix (0xAC100001, 32)],
              localHWAddr = client_mac, gwHWAddr = gw_hw, leaseTime = 300, IsTAP = True\<rparr>\<rparr>"

definition dhcp_request :: "byte \<Rightarrow> DHCPv4" where
  "dhcp_request mt =
     \<lparr>Operation = 1, HardwareType = LinkTypeEthernet, HardwareLen = 6, Xid = 0xAABBCCDD,
      YourClientIP = [], NextServerIP = [], ClientHWAddr = client_mac,
      Options = [NewDHCPOption DHCPOptMessageType [mt]]\<rparr>"

definition dhcp_packet :: "byte \<Rightarrow> Packet" where
  "dhcp_packet mt =
     \<lparr>EthernetLayer = Some \<lparr>SrcMAC = client_mac, DstMAC = [0xFF, 0xFF, 0xFF, 0xFF, 0xFF, 0xFF],
                             EthernetType = EthernetTypeIPv4, Payload = []\<rparr>,
      ARPLayer = None,
      IPv4Layer = Some \<lparr>Version = 4, TTL = 64, SrcIP = [0, 0, 0, 0],
                         DstIP = [255, 255, 255, 255], Protocol = IPProtocolUDP\<rparr>,
      UDPLayer = Some \<lparr>SrcPort = 68, DstPort = 67\<rparr>,
      DHCPv4Layer = Some (dhcp_request mt)\<rparr>"

definition arp_request :: ARP where
  "arp_request =
     \<lparr>AddrType = LinkTypeEthernet, Protocol = EthernetTypeIPv4, HwAddressSize = 6,
      ProtAddressSize = 4, Operation = ARPRequest, SourceHwAddress = client_mac,
      SourceProtAddress = [10, 0, 0, 2], DstHwAddress = [0, 0, 0, 0, 0, 0],
      DstProtAddress = [10, 0, 0, 5]\<rparr>"

definition arp_packet :: "byte list \<Rightarrow> Packet" where
  "arp_packet src =
     \<lparr>EthernetLayer = Some \<lparr>SrcMAC = src, DstMAC = [0xFF, 0xFF, 0xFF, 0xFF, 0xFF, 0xFF],
                             EthernetType = EthernetTypeARP, Payload = []\<rparr>,
      ARPLayer = Some arp_request, IPv4Layer = None, UDPLayer = None, DHCPv4Layer = None\<rparr>"

definition multicast_packet :: Packet where
  "multicast_packet =
     \<lparr>EthernetLayer = Some \<lparr>SrcMAC = client_mac, DstMAC = [0x01, 0x00, 0x5E, 0x00, 0x00, 0xFB],
                             EthernetType = EthernetTypeIPv4, Payload = [0x45, 0x00]\<rparr>,
      ARPLayer = None,
      IPv4Layer = Some \<lparr>Version = 4, TTL = 1, SrcIP = [10, 0, 0, 2],
                         DstIP = [224, 0, 0, 251], Protocol = IPProtocolUDP\<rparr>,
      UDPLayer = Some \<lparr>SrcPort = 5353, DstPort = 5353\<rparr>, DHCPv4Layer = None\<rparr>"

section \<open>Example server\<close>

text \<open>
  The server of \<^verbatim>\<open>10.0.0.0/24\<close> with gateway \<^verbatim>\<open>10.0.0.1\<close>, as \<^verbatim>\<open>NewWebTunnelServer\<close>
  builds it, with the leases of no, one and two connections; a packet decoded from the
  TUN device with a given destination.
\<close>

definition gw_entry :: "any ipData" where
  "gw_entry = \<lparr>ipStatus = ipStatusInUse, data = Some EmptyStruct, userinfo = None\<rparr>"

definition lease_entry :: "nat \<Rightarrow> any ipData" where
  "lease_entry c = \<lparr>ipStatus = ipStatusRequested, data = Some (Conn c), userinfo = None\<rparr>"
definition pool24 :: "any IPPam" where
  "pool24 =
     \<lparr>prefix = ''10.0.0.0/24'',
      allocations = [''10.0.0.255'' \<mapsto> sentinel, ''10.0.0.0'' \<mapsto> sentinel],
      ip = 0x0A000000, ipnet = \<lparr>IPNet.IP = 0x0A000000, Mask = 0xFFFFFF00\<rparr>,
      net = 0x0A000000, bcast = 0x0A0000FF\<rparr>"

definition server24 :: "(string \<rightharpoonup> any ipData) \<Rightarrow> WebTunnelServer" where
  "server24 al =
     \<lparr>serverIPPort = '':8811'', routePrefix = [''172.16.0.1/32'', ''172.16.0.2/32''],
      clientNetPrefix = ''10.0.0.0/24'', gwIP = ''10.0.0.1'',
      ipam = pool24\<lparr>allocations := al\<rparr>\<rparr>"

definition leases0 :: "string \<rightharpoonup> any ipData" where
  "leases0 = [''10.0.0.255'' \<mapsto> sentinel, ''10.0.0.0'' \<mapsto> sentinel,
              ''10.0.0.1'' \<mapsto> gw_entry]"

definition leases1 :: "string \<rightharpoonup> any ipData" where
  "leases1 = leases0(''10.0.0.2'' \<mapsto> lease_entry 1)"

definition leases2 :: "string \<rightharpoonup> any ipData" where
  "leases2 = leases1(''10.0.0.3'' \<mapsto> lease_entry 2)"

definition packet_to :: "byte list \<Rightarrow> Packet" where
  "packet_to dst =
     \<lparr>EthernetLayer = None, ARPLayer = None,
      IPv4Layer = Some \<lparr>Version = 4, TTL = 64, SrcIP = [8, 8, 8, 8], DstIP = dst,
                         Protocol = IPProtocolUDP\<rparr>,
      UDPLayer = None, DHCPv4Layer = None\<rparr>"

definition header_to_3 :: "byte list" where
  "header_to_3 = [0x45, 0, 0, 20, 0, 0, 0, 0, 64, 17, 0, 0, 8, 8, 8, 8, 10, 0, 0, 3]"

section \<open>Facts about addresses, text and networks\<close>

subsection \<open>Bytes and text of an address\<close>

lemma ip_of_bytes_ip_bytes: "ip_of_bytes (ip_bytes a) = a"
proof (rule bit_word_eqI)
  fix n assume "n < LENGTH(32)"
  then consider "n < 8" | "8 \<le> n" "n < 16" | "16 \<le> n" "n < 24" | "24 \<le> n" "n < 32"
    by fastforce
  then show "bit (ip_of_bytes (ip_bytes a)) n = bit a n"
    unfolding ip_of_bytes_def ip_bytes_def octet_def
    by cases (auto simp: bit_simps)
qed

lemma of_char_digit: "d < 10 \<Longrightarrow> of_char (digit d) = 48 + d"
  unfolding digit_def by (simp add: take_bit_eq_mod)

lemma digit_neq_dot: "d < 10 \<Longrightarrow> digit d \<noteq> CHR ''.''"
proof
  assume "d < 10" "digit d = CHR ''.''"
  then have "of_char (digit d) = (of_char (CHR ''.'') :: nat)" by simp
  with \<open>d < 10\<close> show False by (simp add: of_char_digit)
qed

lemma uitoa_no_dot: "CHR ''.'' \<notin> set (uitoa n)"
proof (induction n rule: uitoa.induct)
  case (1 n)
  show ?case
  proof (cases "n < 10")
    case True
    then show ?thesis using digit_neq_dot[of n] by (subst uitoa.simps) auto
  next
    case False
    then show ?thesis using 1 digit_neq_dot[of "n mod 10"]
      by (subst uitoa.simps) auto
  qed
qed

lemma atoi_append: "atoi (xs @ [c]) = 10 * atoi xs + (of_char c - 48)"
  by (simp add: atoi_def)

lemma atoi_uitoa: "atoi (uitoa n) = n"
proof (induction n rule: uitoa.induct)
  case (1 n)
  show ?case
  proof (cases "n < 10")
    case True
    then show ?thesis by (subst uitoa.simps) (simp add: atoi_def of_char_digit)
  next
    case False
    then show ?thesis using 1
      by (subst uitoa.simps) (simp add: atoi_append of_char_digit)
  qed
qed

lemma split_dots_nodot: "CHR ''.'' \<notin> set xs \<Longrightarrow> split_dots xs = [xs]"
  by (induction xs) auto

lemma split_dots_append:
  "CHR ''.'' \<notin> set xs \<Longrightarrow> split_dots (xs @ CHR ''.'' # ys) = xs # split_dots ys"
  by (induction xs) auto

lemma parse_string: "ParseIP (IP_String a) = Some a"
proof -
  have "split_dots (IP_String a) = map (\<lambda>k. uitoa (unat (octet k a))) [0,1,2,3]"
    unfolding IP_String_def
    by (simp add: split_dots_append split_dots_nodot uitoa_no_dot)
  then show ?thesis
    using ip_of_bytes_ip_bytes[of a]
    by (simp add: ParseIP_def atoi_uitoa ip_bytes_def Let_def)
qed

subsection \<open>The increment\<close>

lemma or_ucast_plus: "push_bit 8 (x::32 word) OR ucast (b::byte) = push_bit 8 x + ucast b"
  by (rule disjunctive_add[symmetric]) (auto simp: bit_simps dest: bit_imp_le_length)

lemma ip_of_bytes_sum:
  "ip_of_bytes [b0, b1, b2, b3] =
     push_bit 24 (ucast b0) + push_bit 16 (ucast b1) + push_bit 8 (ucast b2) + ucast b3"
  by (simp add: ip_of_bytes_def or_ucast_plus push_bit_add push_bit_push_bit)

lemma ucast_succ: "(b::byte) + 1 \<noteq> 0 \<Longrightarrow> (ucast (b + 1) :: 32 word) = ucast b + 1"
proof -
  assume "b + 1 \<noteq> 0"
  then have "1 + b \<noteq> 0" by (simp add: add.commute)
  then have "unat (1 + b) = Suc (unat b)" by (rule unatSuc)
  then have "(of_nat (unat (b + 1)) :: 32 word) = of_nat (Suc (unat b))"
    by (simp add: add.commute)
  then show ?thesis by simp
qed

lemma ucast_max: "(b::byte) + 1 = 0 \<Longrightarrow> (ucast b :: 32 word) = 255"
proof -
  assume "b + 1 = 0"
  then have "b = - 1" by (simp add: eq_neg_iff_add_eq_0)
  also have "(- 1 :: byte) = 255" by simp
  finally show ?thesis by simp
qed

lemma inc_loop_4:
  "inc_loop 4 [b0, b1, b2, b3] =
     (if b3 + 1 \<noteq> 0 then [b0, b1, b2, b3 + 1]
      else if b2 + 1 \<noteq> 0 then [b0, b1, b2 + 1, 0]
      else if b1 + 1 \<noteq> 0 then [b0, b1 + 1, 0, 0]
      else [b0 + 1, 0, 0, 0])"
proof -
  have "inc_loop 4 [b0, b1, b2, b3] = inc_loop (Suc (Suc (Suc (Suc 0)))) [b0, b1, b2, b3]"
    by (simp add: numeral_eq_Suc)
  then show ?thesis
    by (simp add: Let_def word_greater_zero_iff)
qed

lemma inc_eq: "inc a = a + 1"
proof -
  obtain b0 b1 b2 b3 where bs: "ip_bytes a = [b0, b1, b2, b3]"
    by (simp add: ip_bytes_def)
  have a: "a = ip_of_bytes [b0, b1, b2, b3]"
    using ip_of_bytes_ip_bytes[of a] bs by simp
  have p8: "push_bit 8 (x + 1) = push_bit 8 x + 256" 
   and p16: "push_bit 16 (x + 1) = push_bit 16 x + 65536"
   and p24: "push_bit 24 (x + 1) = push_bit 24 x + 16777216" for x :: "32 word"
    by (simp_all add: push_bit_eq_mult algebra_simps)
  show ?thesis
    unfolding inc_def bs inc_loop_4
    by (subst a, cases "b0 + 1 = 0")
       (auto simp: ip_of_bytes_sum ucast_succ ucast_max p8 p16 p24)
qed

subsection \<open>Membership in a network, by value\<close>

lemma and_CIDRMask_bit: "bit (x AND CIDRMask n) m \<longleftrightarrow> bit x m \<and> 32 - n \<le> m"
  by (auto simp: CIDRMask_def bit_simps dest: bit_imp_le_length)

lemma masked_eq_iff:
  "x AND CIDRMask n = y AND CIDRMask n \<longleftrightarrow> drop_bit (32 - n) x = drop_bit (32 - n) y"
proof
  assume eq: "x AND CIDRMask n = y AND CIDRMask n"
  show "drop_bit (32 - n) x = drop_bit (32 - n) y"
  proof (rule bit_word_eqI)
    fix m
    have "bit (x AND CIDRMask n) (32 - n + m) = bit (y AND CIDRMask n) (32 - n + m)"
      using eq by simp
    then have "bit x (32 - n + m) = bit y (32 - n + m)"
      unfolding and_CIDRMask_bit by simp
    then show "bit (drop_bit (32 - n) x) m = bit (drop_bit (32 - n) y) m"
      by (simp add: bit_simps)
  qed
next
  assume eq: "drop_bit (32 - n) x = drop_bit (32 - n) y"
  show "x AND CIDRMask n = y AND CIDRMask n"
  proof (rule bit_word_eqI)
    fix m
    have "bit (drop_bit (32 - n) x) (m - (32 - n)) = bit (drop_bit (32 - n) y) (m - (32 - n))"
      using eq by simp
    then show "bit (x AND CIDRMask n) m = bit (y AND CIDRMask n) m"
      unfolding and_CIDRMask_bit
      by (cases "32 - n \<le> m") (simp_all add: bit_simps)
  qed
qed

lemma masked_eq_iff_div:
  "x AND CIDRMask n = y AND CIDRMask n \<longleftrightarrow>
   unat x div 2 ^ (32 - n) = unat y div 2 ^ (32 - n)"
proof -
  have "drop_bit (32 - n) x = drop_bit (32 - n) y \<longleftrightarrow>
        unat (drop_bit (32 - n) x) = unat (drop_bit (32 - n) y)"
    by (rule word_unat_eq_iff)
  also have "\<dots> \<longleftrightarrow> drop_bit (32 - n) (unat x) = drop_bit (32 - n) (unat y)"
    by (simp only: unat_drop_bit_eq)
  finally show ?thesis
    by (simp only: masked_eq_iff drop_bit_eq_div)
qed

lemma unat_masked:
  "unat (a AND CIDRMask n) = unat a div 2 ^ (32 - n) * 2 ^ (32 - n)"
proof -
  let ?k = "32 - n"
  have "a AND CIDRMask n = push_bit ?k (drop_bit ?k a)"
    by (rule bit_word_eqI) (auto simp: CIDRMask_def bit_simps)
  then have "unat (a AND CIDRMask n) = take_bit 32 (push_bit ?k (drop_bit ?k (unat a)))"
    by (simp add: unsigned_push_bit_eq unat_drop_bit_eq)
  also have "\<dots> = (unat a div 2 ^ ?k * 2 ^ ?k) mod 2 ^ 32"
    by (simp add: take_bit_eq_mod push_bit_eq_mult drop_bit_eq_div)
  also have "\<dots> = unat a div 2 ^ ?k * 2 ^ ?k"
  proof -
    have "unat a div 2 ^ ?k * 2 ^ ?k \<le> unat a" by simp
    moreover have "unat a < 2 ^ 32" using unsigned_less[of a] by simp
    ultimately have "unat a div 2 ^ ?k * 2 ^ ?k < 2 ^ 32" by (rule le_less_trans)
    then show ?thesis by (rule mod_less)
  qed
  finally show ?thesis .
qed

text \<open>Sizes: the network of a prefix of length n has 2 ^ (32 - n) addresses.\<close>

lemma quotient_bound:
  assumes "n \<le> 32"
  shows "(unat (a::ipv4) div 2 ^ (32 - n) + 1) * 2 ^ (32 - n) \<le> 2 ^ 32"
proof -
  have "unat a < 2 ^ 32" using unsigned_less[of a] by simp
  also have "(2::nat) ^ 32 = 2 ^ n * 2 ^ (32 - n)"
    using assms by (simp flip: power_add)
  finally have "unat a div 2 ^ (32 - n) < 2 ^ n"
    by (simp add: less_mult_imp_div_less)
  then have "unat a div 2 ^ (32 - n) + 1 \<le> 2 ^ n" by simp
  then have "(unat a div 2 ^ (32 - n) + 1) * 2 ^ (32 - n) \<le> 2 ^ n * 2 ^ (32 - n)"
    by (rule mult_le_mono1)
  then show ?thesis using assms by (simp flip: power_add)
qed

lemma unat_addr:
  assumes "n \<le> 32" "j < 2 ^ (32 - n)"
  shows "unat ((a AND CIDRMask n) + of_nat j) = unat a div 2 ^ (32 - n) * 2 ^ (32 - n) + j"
proof -
  let ?K = "(2::nat) ^ (32 - n)"
  let ?Q = "unat a div ?K"
  have "?Q * ?K + j < (?Q + 1) * ?K" using assms(2) by simp
  with quotient_bound[OF assms(1), of a] have lt: "?Q * ?K + j < 2 ^ 32" by linarith
  then have "j < 2 ^ 32" by linarith
  then have "unat (of_nat j :: ipv4) = j" by (simp add: unat_of_nat)
  then show ?thesis using lt
    by (simp add: unat_word_ariths unat_masked)
qed

lemma masked_idem: "(a AND CIDRMask n) AND CIDRMask n = a AND CIDRMask n"
  by (simp add: and.assoc)

lemma Contains_iff_div:
  "Contains \<lparr>IPNet.IP = IP_Mask a (CIDRMask n), Mask = CIDRMask n\<rparr> x \<longleftrightarrow>
   unat x div 2 ^ (32 - n) = unat a div 2 ^ (32 - n)"
  unfolding Contains_def IP_Mask_def
  by (simp add: masked_idem masked_eq_iff_div eq_commute)

lemma Contains_addr:
  assumes "n \<le> 32" "j < 2 ^ (32 - n)"
  shows "Contains \<lparr>IPNet.IP = IP_Mask a (CIDRMask n), Mask = CIDRMask n\<rparr>
           ((a AND CIDRMask n) + of_nat j)"
  using assms by (simp add: Contains_iff_div unat_addr)

lemma Contains_addr_conv:
  assumes "n \<le> 32"
    and "Contains \<lparr>IPNet.IP = IP_Mask a (CIDRMask n), Mask = CIDRMask n\<rparr> x"
  shows "\<exists>j < 2 ^ (32 - n). x = (a AND CIDRMask n) + of_nat j"
proof -
  let ?K = "(2::nat) ^ (32 - n)"
  have q: "unat x div ?K = unat a div ?K"
    using assms(2) by (simp add: Contains_iff_div)
  have lt: "unat x mod ?K < ?K" by simp
  have "unat ((a AND CIDRMask n) + of_nat (unat x mod ?K)) = unat a div ?K * ?K + unat x mod ?K"
    by (rule unat_addr[OF assms(1) lt])
  also have "\<dots> = unat x" using q by (metis div_mult_mod_eq)
  finally have "x = (a AND CIDRMask n) + of_nat (unat x mod ?K)"
    by (simp add: word_unat_eq_iff)
  with lt show ?thesis by blast
qed

lemma not_Contains_end:
  assumes "1 \<le> n" "n \<le> 32"
  shows "\<not> Contains \<lparr>IPNet.IP = IP_Mask a (CIDRMask n), Mask = CIDRMask n\<rparr>
           ((a AND CIDRMask n) + of_nat (2 ^ (32 - n)))"
proof -
  let ?K = "(2::nat) ^ (32 - n)"
  let ?Q = "unat a div ?K"
  have K32: "?K < 2 ^ 32"
    by (rule power_strict_increasing) (use assms in auto)
  have "unat (of_nat ?K :: ipv4) = ?K mod 2 ^ LENGTH(32)" by (rule unat_of_nat)
  also have "\<dots> = ?K" using K32 by simp
  finally have uK: "unat (of_nat ?K :: ipv4) = ?K" .
  have "unat ((a AND CIDRMask n) + of_nat ?K) = (?Q * ?K + ?K) mod 2 ^ 32"
    using uK by (simp add: unat_word_ariths unat_masked)
  also have "?Q * ?K + ?K = (?Q + 1) * ?K" by simp
  finally have u: "unat ((a AND CIDRMask n) + of_nat ?K) = ((?Q + 1) * ?K) mod 2 ^ 32" .
  have "((?Q + 1) * ?K) mod 2 ^ 32 div ?K \<noteq> ?Q"
  proof (cases "(?Q + 1) * ?K < 2 ^ 32")
    case True
    then show ?thesis by simp
  next
    case False
    with quotient_bound[OF assms(2), of a] have e: "(?Q + 1) * ?K = 2 ^ 32" by linarith
    have "?Q \<noteq> 0"
    proof
      assume "?Q = 0"
      with e have "?K = 2 ^ 32" by simp
      with K32 show False by simp
    qed
    with e show ?thesis by simp
  qed
  then show ?thesis unfolding Contains_iff_div u .
qed

lemma CIDRMask_0: "CIDRMask 0 = 0"
  by (rule bit_word_eqI) (simp add: CIDRMask_def bit_simps)

lemma lastAddr_eq:
  assumes "n \<le> 32"
  shows "lastAddr \<lparr>IPNet.IP = IP_Mask a (CIDRMask n), Mask = CIDRMask n\<rparr> =
           (a AND CIDRMask n) + of_nat (2 ^ (32 - n) - 1)"
proof -
  have m: "NOT (CIDRMask n) = mask (32 - n)"
    by (rule bit_word_eqI) (auto simp: CIDRMask_def bit_simps)
  have "(a AND CIDRMask n) OR mask (32 - n) = (a AND CIDRMask n) + mask (32 - n)"
    by (rule disjunctive_add[symmetric]) (auto simp: CIDRMask_def bit_simps)
  moreover have "(mask (32 - n) :: ipv4) = of_nat (2 ^ (32 - n) - 1)"
    by (simp add: mask_eq_exp_minus_1 of_nat_diff)
  ultimately show ?thesis
    by (simp add: lastAddr_def IP_Mask_def m)
qed

subsection \<open>The scan\<close>

lemma IP_String_inj: "IP_String a = IP_String b \<longleftrightarrow> a = b"
proof
  assume "IP_String a = IP_String b"
  then have "ParseIP (IP_String a) = ParseIP (IP_String b)" by simp
  then show "a = b" by (simp add: parse_string)
qed simp

lemma scan_found:
  "Contains n a \<Longrightarrow> al (IP_String a) = None \<Longrightarrow> AcquireIP_scan al n a = Some (Found a)"
  by (subst AcquireIP_scan.simps) simp

lemma scan_skip:
  "Contains n a \<Longrightarrow> al (IP_String a) \<noteq> None \<Longrightarrow>
   AcquireIP_scan al n a = AcquireIP_scan al n (a + 1)"
  by (subst AcquireIP_scan.simps) (auto simp add: inc_eq)

lemma scan_out: "\<not> Contains n a \<Longrightarrow> AcquireIP_scan al n a = Some Exhausted"
  by (subst AcquireIP_scan.simps) simp


lemma scan_list:
  fixes al :: "string \<rightharpoonup> 'a ipData"
  defines "free \<equiv> (\<lambda>x. al (IP_String x) = None)"
  assumes n: "n \<le> 32" and j: "j \<le> 2 ^ (32 - n)"
    and ok: "1 \<le> n \<or> filter free (map (\<lambda>j. (a AND CIDRMask n) + of_nat j) [j ..< 2 ^ (32 - n)]) \<noteq> []"
  shows "AcquireIP_scan al \<lparr>IPNet.IP = IP_Mask a (CIDRMask n), Mask = CIDRMask n\<rparr>
           ((a AND CIDRMask n) + of_nat j) =
         Some (case filter free (map (\<lambda>j. (a AND CIDRMask n) + of_nat j) [j ..< 2 ^ (32 - n)]) of
                 [] \<Rightarrow> Exhausted | x # _ \<Rightarrow> Found x)"
  using j ok
proof (induction "2 ^ (32 - n) - j" arbitrary: j)
  case 0
  then have j: "j = 2 ^ (32 - n)" by simp
  with 0 have "1 \<le> n" by simp
  then show ?case using not_Contains_end[OF _ n, of a] by (simp add: j scan_out)
next
  case (Suc d)
  then have lt: "j < 2 ^ (32 - n)" by linarith
  have c: "Contains \<lparr>IPNet.IP = IP_Mask a (CIDRMask n), Mask = CIDRMask n\<rparr> ((a AND CIDRMask n) + of_nat j)"
    by (rule Contains_addr[OF n lt])
  have upt: "[j ..< 2 ^ (32 - n)] = j # [Suc j ..< 2 ^ (32 - n)]"
    using lt by (rule upt_conv_Cons)
  show ?case
  proof (cases "free ((a AND CIDRMask n) + of_nat j)")
    case True
    then show ?thesis using c by (simp add: upt scan_found free_def)
  next
    case False
    have "AcquireIP_scan al \<lparr>IPNet.IP = IP_Mask a (CIDRMask n), Mask = CIDRMask n\<rparr>
           ((a AND CIDRMask n) + of_nat j) =
          AcquireIP_scan al \<lparr>IPNet.IP = IP_Mask a (CIDRMask n), Mask = CIDRMask n\<rparr>
           ((a AND CIDRMask n) + of_nat (Suc j))"
      using c False by (simp add: scan_skip free_def ac_simps)
    moreover have "d = 2 ^ (32 - n) - Suc j" using Suc.hyps(2) by simp
    moreover have "Suc j \<le> 2 ^ (32 - n)" using lt by simp
    moreover have "1 \<le> n \<or> filter free (map (\<lambda>j. (a AND CIDRMask n) + of_nat j) [Suc j ..< 2 ^ (32 - n)]) \<noteq> []"
      using Suc.prems(2) False by (simp add: upt)
    ultimately show ?thesis using Suc.hyps(1)[of "Suc j"] False by (simp add: upt)
  qed
qed

lemma scan_diverges:
  assumes full: "\<forall>x. al (IP_String x) \<noteq> None"
  shows "AcquireIP_scan al \<lparr>IPNet.IP = b, Mask = 0\<rparr> x = None"
proof -
  let ?nw = "\<lparr>IPNet.IP = b, Mask = 0\<rparr>"
  have False if s: "AcquireIP_scan al ?nw x = Some y" for y
  proof -
    have "\<not> (al = al \<and> ?nw = ?nw)"
    proof (rule AcquireIP_scan.raw_induct
             [where P = "\<lambda>al' n' x' y. \<not> (al' = al \<and> n' = ?nw)", OF _ s])
      fix f :: "(string \<rightharpoonup> 'a ipData) \<Rightarrow> IPNet \<Rightarrow> ipv4 \<Rightarrow> scan_result option"
      fix al' n' x' y'
      assume IH: "\<And>n a b y. f n a b = Some y \<Longrightarrow> \<not> (n = al \<and> a = ?nw)"
        and eq: "(if Contains n' x'
                  then if al' (IP_String x') = None then Some (Found x')
                       else f al' n' (inc x')
                  else Some Exhausted) = Some y'"
      show "\<not> (al' = al \<and> n' = ?nw)"
      proof
        assume h: "al' = al \<and> n' = ?nw"
        then have "f al ?nw (inc x') = Some y'"
          using eq full by (simp add: Contains_def)
        with IH show False by blast
      qed
    qed
    then show False by simp
  qed
  then show ?thesis by (cases "AcquireIP_scan al ?nw x") auto
qed

lemma sorted_network_addrs:
  assumes "n \<le> 32"
  shows "sorted_wrt (<) (network_addrs a n)"
proof -
  have "sorted_wrt (\<lambda>j k. (a AND CIDRMask n) + of_nat j < (a AND CIDRMask n) + of_nat k)
          [0 ..< 2 ^ (32 - n)]"
  proof (rule sorted_wrt_mono_rel[OF _ sorted_wrt_upt])
    fix j k assume "j \<in> set [0 ..< 2 ^ (32 - n)]" "k \<in> set [0 ..< 2 ^ (32 - n)]" "j < k"
    then show "(a AND CIDRMask n) + of_nat j < (a AND CIDRMask n) + of_nat k"
      using assms by (simp add: word_less_nat_alt unat_addr)
  qed
  then show ?thesis by (simp add: network_addrs_def IP_Mask_def sorted_wrt_map)
qed

lemma distinct_network_addrs: "n \<le> 32 \<Longrightarrow> distinct (network_addrs a n)"
  using sorted_network_addrs[of n a] strict_sorted_iff by blast

lemma set_network_addrs:
  assumes "n \<le> 32"
  shows "set (network_addrs a n) =
           {x. Contains \<lparr>IPNet.IP = IP_Mask a (CIDRMask n), Mask = CIDRMask n\<rparr> x}"
proof (intro set_eqI iffI)
  fix x assume "x \<in> set (network_addrs a n)"
  then show "x \<in> {x. Contains \<lparr>IPNet.IP = IP_Mask a (CIDRMask n), Mask = CIDRMask n\<rparr> x}"
    using Contains_addr[OF assms, of _ a] by (auto simp: network_addrs_def IP_Mask_def)
next
  fix x assume "x \<in> {x. Contains \<lparr>IPNet.IP = IP_Mask a (CIDRMask n), Mask = CIDRMask n\<rparr> x}"
  then show "x \<in> set (network_addrs a n)"
    using Contains_addr_conv[OF assms, of a x] by (auto simp: network_addrs_def IP_Mask_def)
qed

subsection \<open>Pools\<close>

lemma pool_NewIPPam:
  assumes "n \<le> 32"
  shows "\<exists>i. (NewIPPam a n :: error + 'a IPPam) = Inr i \<and> pool a n i \<and>
           allocations i =
             [IP_String (bcast i) \<mapsto> \<lparr>ipStatus = ipStatusInUse, data = None, userinfo = None\<rparr>,
              IP_String (net i) \<mapsto> \<lparr>ipStatus = ipStatusInUse, data = None, userinfo = None\<rparr>]"
  using assms by (simp add: NewIPPam_def ParseCIDR_def pool_def Let_def)

lemma pool_first:
  assumes "pool a n i"
  shows "IP_Mask (ip i) (Mask (ipnet i)) = (a AND CIDRMask n) + of_nat 0"
  using assms by (simp add: pool_def IP_Mask_def)

lemma AcquireIP_pool:
  fixes i :: "'a IPPam"
  defines "F \<equiv> filter (\<lambda>x. allocations i (IP_String x) = None)"
  assumes p: "pool a n i"
  shows "F (network_addrs a n) = x # xs \<Longrightarrow>
           AcquireIP i d =
             Some (i\<lparr>allocations := (allocations i)
                      (IP_String x \<mapsto> \<lparr>ipStatus = ipStatusRequested, data = d, userinfo = None\<rparr>)\<rparr>,
                   Inr (IP_String x))"
    and "F (network_addrs a n) = [] \<Longrightarrow> 1 \<le> n \<Longrightarrow>
           AcquireIP i d = Some (i, Inl (Err ''IPs exhausted''))"
proof -
  have n: "n \<le> 32" and nw: "ipnet i = \<lparr>IPNet.IP = IP_Mask a (CIDRMask n), Mask = CIDRMask n\<rparr>"
    using p by (simp_all add: pool_def)
  have scan: "1 \<le> n \<or> F (network_addrs a n) \<noteq> [] \<Longrightarrow>
     AcquireIP_scan (allocations i) (ipnet i) (IP_Mask (ip i) (Mask (ipnet i))) =
       Some (case F (network_addrs a n) of [] \<Rightarrow> Exhausted | x # _ \<Rightarrow> Found x)"
  proof -
    assume ok: "1 \<le> n \<or> F (network_addrs a n) \<noteq> []"
    have "AcquireIP_scan (allocations i) \<lparr>IPNet.IP = IP_Mask a (CIDRMask n), Mask = CIDRMask n\<rparr>
            ((a AND CIDRMask n) + of_nat 0) =
          Some (case filter (\<lambda>x. allocations i (IP_String x) = None)
                       (map (\<lambda>j. (a AND CIDRMask n) + of_nat j) [0 ..< 2 ^ (32 - n)]) of
                  [] \<Rightarrow> Exhausted | x # _ \<Rightarrow> Found x)"
      using ok by (intro scan_list[OF n]) (simp_all add: F_def network_addrs_def IP_Mask_def)
    then show ?thesis
      using pool_first[OF p] by (simp add: nw F_def network_addrs_def IP_Mask_def)
  qed
  show "F (network_addrs a n) = x # xs \<Longrightarrow>
           AcquireIP i d =
             Some (i\<lparr>allocations := (allocations i)
                      (IP_String x \<mapsto> \<lparr>ipStatus = ipStatusRequested, data = d, userinfo = None\<rparr>)\<rparr>,
                   Inr (IP_String x))"
    using scan by (simp add: AcquireIP_def)
  show "F (network_addrs a n) = [] \<Longrightarrow> 1 \<le> n \<Longrightarrow>
           AcquireIP i d = Some (i, Inl (Err ''IPs exhausted''))"
    using scan by (simp add: AcquireIP_def)
qed

lemma pool_update:
  assumes "pool a n i"
  shows "pool a n (i\<lparr>allocations := (allocations i)(k \<mapsto> v)\<rparr>)"
  using assms by (auto simp add: pool_def)

lemma free_after:
  assumes d: "distinct ys"
    and f: "filter (\<lambda>x. al (IP_String x) = None) ys = x # xs"
  shows "filter (\<lambda>y. (al(IP_String x \<mapsto> v)) (IP_String y) = None) ys = xs"
proof -
  have "filter (\<lambda>y. (al(IP_String x \<mapsto> v)) (IP_String y) = None) ys =
        filter (\<lambda>y. y \<noteq> x) (filter (\<lambda>x. al (IP_String x) = None) ys)"
    unfolding filter_filter
    by (rule filter_cong) (auto simp: IP_String_inj)
  also have "\<dots> = filter (\<lambda>y. y \<noteq> x) xs" by (simp add: f)
  also have "\<dots> = xs"
  proof -
    have "distinct (x # xs)" using d f distinct_filter by metis
    then show ?thesis by (auto simp add: filter_id_conv)
  qed
  finally show ?thesis .
qed

lemma AcquireIP_seq_pool:
  fixes i :: "'a IPPam"
  assumes "pool a n i"
    and "1 \<le> n \<or> length ds \<le> length (filter (\<lambda>x. allocations i (IP_String x) = None) (network_addrs a n))"
  shows "\<exists>i'. AcquireIP_seq i ds =
           Some (i', map (\<lambda>x. Inr (IP_String x))
                      (take (length ds) (filter (\<lambda>x. allocations i (IP_String x) = None) (network_addrs a n))) @
                     replicate (length ds - length (filter (\<lambda>x. allocations i (IP_String x) = None) (network_addrs a n)))
                       (Inl (Err ''IPs exhausted'')))"
  using assms
proof (induction ds arbitrary: i)
  case Nil
  then show ?case by simp
next
  case (Cons d ds)
  let ?F = "filter (\<lambda>x. allocations i (IP_String x) = None) (network_addrs a n)"
  have n: "n \<le> 32" using Cons.prems(1) by (simp add: pool_def)
  show ?case
  proof (cases ?F)
    case Nil
    with Cons.prems(2) have n1: "1 \<le> n" by simp
    have a: "AcquireIP i d = Some (i, Inl (Err ''IPs exhausted''))"
      by (rule AcquireIP_pool(2)[OF Cons.prems(1) Nil n1])
    from Cons.IH[OF Cons.prems(1)] n1 Nil obtain i' where
      "AcquireIP_seq i ds = Some (i', replicate (length ds) (Inl (Err ''IPs exhausted'')))"
      by auto
    then show ?thesis using a Nil by simp
  next
    case (Cons x xs)
    let ?i = "i\<lparr>allocations := (allocations i)
                (IP_String x \<mapsto> \<lparr>ipStatus = ipStatusRequested, data = d, userinfo = None\<rparr>)\<rparr>"
    have a: "AcquireIP i d = Some (?i, Inr (IP_String x))"
      by (rule AcquireIP_pool(1)[OF Cons.prems(1) Cons])
    have p: "pool a n ?i" using Cons.prems(1) by (rule pool_update)
    have F': "filter (\<lambda>y. allocations ?i (IP_String y) = None) (network_addrs a n) = xs"
      using free_after[OF distinct_network_addrs[OF n] Cons] by simp
    have "1 \<le> n \<or> length ds \<le> length xs" using Cons.prems(2) Cons by simp
    with Cons.IH[OF p] F' obtain i' where
      "AcquireIP_seq ?i ds =
         Some (i', map (\<lambda>x. Inr (IP_String x)) (take (length ds) xs) @
                   replicate (length ds - length xs) (Inl (Err ''IPs exhausted'')))"
      by auto
    then show ?thesis using a Cons by simp
  qed
qed

lemma AcquireSpecificIP_ok:
  assumes "Contains (ipnet i) g" "allocations i (IP_String g) = None"
  shows "AcquireSpecificIP i (IP_String g) d =
           (i\<lparr>allocations := (allocations i)
               (IP_String g \<mapsto> \<lparr>ipStatus = ipStatusInUse, data = d, userinfo = None\<rparr>)\<rparr>, None)"
  using assms by (simp add: AcquireSpecificIP_def isValidIP_def parse_string)

lemma AcquireSpecificIP_success:
  assumes "AcquireSpecificIP i (IP_String g) d = (i', None)"
  shows "Contains (ipnet i) g \<and> allocations i (IP_String g) = None \<and>
         i' = i\<lparr>allocations := (allocations i)
               (IP_String g \<mapsto> \<lparr>ipStatus = ipStatusInUse, data = d, userinfo = None\<rparr>)\<rparr>"
  using assms
  by (auto simp add: AcquireSpecificIP_def isValidIP_def parse_string split: if_splits)

lemma first_free_lowest:
  assumes "sorted_wrt (<) ys" "x \<in> set ys" "P x" "\<forall>y \<in> set ys. y < x \<longrightarrow> \<not> P y"
  shows "\<exists>xs. filter P ys = x # xs"
  using assms
proof (induction ys)
  case Nil
  then show ?case by simp
next
  case (Cons y ys)
  show ?case
  proof (cases "y = x")
    case True
    then show ?thesis using Cons.prems by simp
  next
    case False
    with Cons.prems have "x \<in> set ys" "y < x" by auto
    with Cons show ?thesis by auto
  qed
qed

lemma ReleaseIP_pool:
  assumes p: "pool a n i" and k: "key \<noteq> IP_String (net i)" "key \<noteq> IP_String (bcast i)"
  shows "pool a n (i\<lparr>allocations := (allocations i)(key := None)\<rparr>)"
  using assms by (auto simp add: pool_def)

lemma NewIPPam_Inr:
  assumes "NewIPPam a n = Inr i"
  shows "n \<le> 32 \<and> pool a n i \<and>
         allocations i =
           [IP_String (bcast i) \<mapsto> \<lparr>ipStatus = ipStatusInUse, data = None, userinfo = None\<rparr>,
            IP_String (net i) \<mapsto> \<lparr>ipStatus = ipStatusInUse, data = None, userinfo = None\<rparr>]"
  using assms
  by (auto simp add: NewIPPam_def ParseCIDR_def pool_def Let_def split: if_splits)

lemma host_addrs_free:
  assumes p: "pool a n i"
    and al: "allocations i =
         [IP_String (bcast i) \<mapsto> s, IP_String (net i) \<mapsto> s, IP_String g \<mapsto> t]"
  shows "filter (\<lambda>x. allocations i (IP_String x) = None) (network_addrs a n) = host_addrs a n g"
  unfolding host_addrs_def
  using p by (intro filter_cong) (auto simp add: al IP_String_inj pool_def)

lemma AcquireIP_ascending:
  fixes i0 :: "'a IPPam"
  assumes n: "n \<le> 32" and new: "NewIPPam a n = Inr i0"
    and gw: "AcquireSpecificIP i0 (IP_String g) d0 = (i1, None)"
    and ds: "1 \<le> n \<or> length ds \<le> length (host_addrs a n g)"
  shows "dom (allocations i0) = {IP_String (net i0), IP_String (bcast i0)} \<and>
         allocations i0 (IP_String (net i0)) =
           Some \<lparr>ipStatus = ipStatusInUse, data = None, userinfo = None\<rparr> \<and>
         allocations i0 (IP_String (bcast i0)) =
           Some \<lparr>ipStatus = ipStatusInUse, data = None, userinfo = None\<rparr> \<and>
         (\<exists>i'. AcquireIP_seq i1 ds =
            Some (i', map (\<lambda>x. Inr (IP_String x)) (take (length ds) (host_addrs a n g)) @
                      replicate (length ds - length (host_addrs a n g))
                        (Inl (Err ''IPs exhausted'')))) \<and>
         sorted_wrt (<) (host_addrs a n g) \<and>
         set (host_addrs a n g) = {x. Contains (ipnet i0) x} - {net i0, bcast i0, g}"
proof -
  from NewIPPam_Inr[OF new] have p0: "pool a n i0"
    and al0: "allocations i0 =
       [IP_String (bcast i0) \<mapsto> \<lparr>ipStatus = ipStatusInUse, data = None, userinfo = None\<rparr>,
        IP_String (net i0) \<mapsto> \<lparr>ipStatus = ipStatusInUse, data = None, userinfo = None\<rparr>]"
    by auto
  from AcquireSpecificIP_success[OF gw] have
    i1: "i1 = i0\<lparr>allocations := (allocations i0)
               (IP_String g \<mapsto> \<lparr>ipStatus = ipStatusInUse, data = d0, userinfo = None\<rparr>)\<rparr>"
    and g: "allocations i0 (IP_String g) = None"
    by auto
  have p1: "pool a n i1" unfolding i1 using p0 by (rule pool_update)
  have gn: "IP_String g \<noteq> IP_String (net i0)" "IP_String g \<noteq> IP_String (bcast i0)"
    using g al0 by (auto split: if_splits)
  have al1: "allocations i1 =
       [IP_String (bcast i1) \<mapsto> \<lparr>ipStatus = ipStatusInUse, data = None, userinfo = None\<rparr>,
        IP_String (net i1) \<mapsto> \<lparr>ipStatus = ipStatusInUse, data = None, userinfo = None\<rparr>,
        IP_String g \<mapsto> \<lparr>ipStatus = ipStatusInUse, data = d0, userinfo = None\<rparr>]"
    by (simp add: i1 al0)
  have F: "filter (\<lambda>x. allocations i1 (IP_String x) = None) (network_addrs a n) = host_addrs a n g"
    by (rule host_addrs_free[OF p1 al1])
  have seq: "\<exists>i'. AcquireIP_seq i1 ds =
            Some (i', map (\<lambda>x. Inr (IP_String x)) (take (length ds) (host_addrs a n g)) @
                      replicate (length ds - length (host_addrs a n g))
                        (Inl (Err ''IPs exhausted'')))"
    using AcquireIP_seq_pool[OF p1, of ds] ds by (simp add: F)
  have srt: "sorted_wrt (<) (host_addrs a n g)"
    unfolding host_addrs_def by (intro sorted_wrt_filter sorted_network_addrs n)
  have st: "set (host_addrs a n g) = {x. Contains (ipnet i0) x} - {net i0, bcast i0, g}"
    using p0 by (auto simp add: host_addrs_def set_network_addrs[OF n] pool_def)
  have dm: "dom (allocations i0) = {IP_String (net i0), IP_String (bcast i0)}"
    by (subst al0) auto
  show ?thesis using dm al0 seq srt st by (auto simp: fun_upd_same)
qed

lemma AcquireIP_slash0_full:
  assumes "pool a 0 i" "\<forall>x. allocations i (IP_String x) \<noteq> None"
  shows "AcquireIP i d = None"
  using assms scan_diverges[of "allocations i"]
  by (simp add: AcquireIP_def pool_def CIDRMask_0)

lemma pool_full_pool0: "pool 0 0 full_pool0"
  by (simp add: pool_def full_pool0_def CIDRMask_0 IP_Mask_def lastAddr_def parse_string)

subsection \<open>The example pools\<close>

lemma IP_String_29:
  "IP_String 0xC0A80000 = ''192.168.0.0''" "IP_String 0xC0A80001 = ''192.168.0.1''"
  "IP_String 0xC0A80002 = ''192.168.0.2''" "IP_String 0xC0A80003 = ''192.168.0.3''"
  "IP_String 0xC0A80004 = ''192.168.0.4''" "IP_String 0xC0A80005 = ''192.168.0.5''"
  "IP_String 0xC0A80006 = ''192.168.0.6''" "IP_String 0xC0A80007 = ''192.168.0.7''"
  by code_simp+

lemma eval_29:
  "ParseCIDR 0xC0A80000 29 = Some (0xC0A80000, \<lparr>IPNet.IP = 0xC0A80000, Mask = 0xFFFFFFF8\<rparr>)"
  "CIDRMask 29 = 0xFFFFFFF8"
  "IP_Mask 0xC0A80000 0xFFFFFFF8 = 0xC0A80000"
  "lastAddr \<lparr>IPNet.IP = 0xC0A80000, Mask = 0xFFFFFFF8\<rparr> = 0xC0A80007"
  "cidr_text 0xC0A80000 29 = ''192.168.0.0/29''"
  "network_addrs 0xC0A80000 29 =
     [0xC0A80000, 0xC0A80001, 0xC0A80002, 0xC0A80003, 0xC0A80004, 0xC0A80005, 0xC0A80006,
      0xC0A80007]"
  "host_addrs 0xC0A80000 29 0xC0A80001 =
     [0xC0A80002, 0xC0A80003, 0xC0A80004, 0xC0A80005, 0xC0A80006]"
  by code_simp+

lemma NewIPPam_29: "NewIPPam 0xC0A80000 29 = Inr pool29"
  by (simp add: NewIPPam_def eval_29 IP_String_29 pool29_def sentinel_def)

lemma pool_pool29: "pool 0xC0A80000 29 pool29"
  using NewIPPam_Inr[OF NewIPPam_29] by simp

lemma pool_pool29_busy: "pool 0xC0A80000 29 pool29_busy"
  using pool_pool29
  by (simp add: pool_def pool29_busy_def pool29_def IP_String_29 eval_29)

lemma AcquireIP_29_scenario:
  "\<exists>i1 i'. AcquireSpecificIP pool29 ''192.168.0.1'' (Some 0) = (i1, None) \<and>
     AcquireIP_seq i1 [Some 1, Some 2, Some 3, Some 4, Some 5, Some 6] =
       Some (i', [Inr ''192.168.0.2'', Inr ''192.168.0.3'', Inr ''192.168.0.4'',
                  Inr ''192.168.0.5'', Inr ''192.168.0.6'', Inl (Err ''IPs exhausted'')])"
proof -
  have c: "Contains (ipnet pool29) 0xC0A80001"
    by (simp add: pool29_def Contains_def)
  have f: "allocations pool29 (IP_String 0xC0A80001) = None"
    by (simp add: pool29_def IP_String_29)
  from AcquireSpecificIP_ok[OF c f, of "Some 0"] obtain i1 where
    g: "AcquireSpecificIP pool29 (IP_String 0xC0A80001) (Some 0) = (i1, None)"
    by blast
  have n: "(29::nat) \<le> 32" by simp
  from AcquireIP_ascending[OF n NewIPPam_29 g, of "[Some 1, Some 2, Some 3, Some 4, Some 5, Some 6]"]
  obtain i' where "AcquireIP_seq i1 [Some 1, Some 2, Some 3, Some 4, Some 5, Some 6] =
       Some (i', [Inr ''192.168.0.2'', Inr ''192.168.0.3'', Inr ''192.168.0.4'',
                  Inr ''192.168.0.5'', Inr ''192.168.0.6'', Inl (Err ''IPs exhausted'')])"
    by (auto simp add: eval_29 IP_String_29)
  with g show ?thesis by (auto simp add: IP_String_29)
qed

lemma gateway_29:
  "AcquireSpecificIP pool29 ''192.168.0.1'' (Some 0) =
     (pool29\<lparr>allocations := (allocations pool29)
        (''192.168.0.1'' \<mapsto> conn_entry ipStatusInUse 0)\<rparr>, None)"
proof -
  have c: "Contains (ipnet pool29) 0xC0A80001"
    by (simp add: pool29_def Contains_def)
  have f: "allocations pool29 (IP_String 0xC0A80001) = None"
    by (simp add: pool29_def IP_String_29)
  from AcquireSpecificIP_ok[OF c f, of "Some 0"] show ?thesis
    by (simp add: IP_String_29 conn_entry_def)
qed

section \<open>Facts about the client\<close>

lemma PutUint32_ip_bytes: "PutUint32 v = ip_bytes v"
  by (simp add: PutUint32_def ip_bytes_def octet_def)

lemma CIDRMask_bit: "bit (CIDRMask n) m \<longleftrightarrow> 32 - n \<le> m \<and> m < 32"
  by (auto simp: CIDRMask_def bit_simps)

lemma CIDRMask_inj:
  assumes "n \<le> 32" "k \<le> 32" "CIDRMask n = CIDRMask k"
  shows "n = k"
proof (rule ccontr)
  assume ne: "n \<noteq> k"
  have "\<And>m. (32 - n \<le> m \<and> m < 32) = (32 - k \<le> m \<and> m < 32)"
    using assms(3) CIDRMask_bit by metis
  from this[of "32 - n"] this[of "32 - k"] assms(1,2) ne show False
    by (cases "n < k") auto
qed

lemma Mask_Size_CIDRMask:
  assumes "n \<le> 32"
  shows "Mask_Size (CIDRMask n) = n"
proof -
  have "n \<in> set [0 ..< 33]" using assms by simp
  then obtain k where k: "find (\<lambda>k. CIDRMask k = CIDRMask n) [0 ..< 33] = Some k"
    by (cases "find (\<lambda>k. CIDRMask k = CIDRMask n) [0 ..< 33]") (auto simp: find_None_iff)
  then have "CIDRMask k = CIDRMask n" "k \<in> set [0 ..< 33]"
    by (auto simp: find_Some_iff)
  then have "k = n" using CIDRMask_inj[of k n] assms by simp
  with k show ?thesis by (simp add: Mask_Size_def)
qed

lemma dns_loop_eq: "dns_loop opt ss = opt @ map (NewDHCPOption DHCPOptDNS) ss"
  by (induction ss arbitrary: opt) simp_all

lemma ceil8: "(if k mod 8 > 0 then k div 8 + 1 else k div 8) = (k + 7) div (8::nat)"
  by presburger

lemma route_loop_eq:
  assumes "\<forall>c \<in> set cidrs. snd c \<le> 32"
  shows "route_loop gw route (map parsed_prefix cidrs) =
           route @ concat (map (\<lambda>(a, k). spec_route_entry gw (IP_Mask a (CIDRMask k)) k) cidrs)"
  using assms
proof (induction cidrs arbitrary: route)
  case Nil
  then show ?case by simp
next
  case (Cons c cs)
  obtain a k where c: "c = (a, k)" by (cases c)
  with Cons.prems have k: "k \<le> 32" by simp
  have "route_loop gw route (map parsed_prefix (c # cs)) =
        route_loop gw (route @ spec_route_entry gw (IP_Mask a (CIDRMask k)) k)
          (map parsed_prefix cs)"
    using ceil8[of k]
    by (simp add: c parsed_prefix_def Let_def Mask_Size_CIDRMask[OF k] spec_route_entry_def)
  also have "\<dots> = (route @ spec_route_entry gw (IP_Mask a (CIDRMask k)) k) @
      concat (map (\<lambda>(a, k). spec_route_entry gw (IP_Mask a (CIDRMask k)) k) cs)"
    using Cons.prems by (intro Cons.IH) simp
  finally show ?case by (simp add: c)
qed

lemma buildDHCPopts_eq:
  assumes "Interface.RoutePrefix (ifce w) = map parsed_prefix cidrs"
    and "\<forall>c \<in> set cidrs. snd c \<le> 32"
  shows "buildDHCPopts w (leaseTime (ifce w)) rt = spec_options w rt cidrs"
  using route_loop_eq[OF assms(2), of "GWIP (ifce w)" "[]"]
  by (simp add: buildDHCPopts_def spec_options_def Let_def dns_loop_eq assms(1))

lemma responder_no_ws:
  assumes "\<forall>x \<in> set (fst r). \<exists>f. x = IfceWrite f"
  shows "WSWriteMessage mt payload \<notin> set (fst (after_responder what r))"
  using assms
  by (auto simp add: after_responder_def split: option.splits error.splits)

lemma handleArp_effects: "\<forall>x \<in> set (fst (handleArp g env w p)). \<exists>f. x = IfceWrite f"
  by (auto simp add: handleArp_def Let_def split: option.splits sum.splits if_splits)

lemma handleDHCP_effects: "\<forall>x \<in> set (fst (handleDHCP g env w p)). \<exists>f. x = IfceWrite f"
  by (auto simp add: handleDHCP_def Let_def split: option.splits sum.splits if_splits)

lemma spec_options_ex:
  "spec_options client_ex DHCPMsgTypeOffer [(0xAC100001, 32)] =
     [\<lparr>Type = 6, Length = 4, Data = [8, 8, 8, 8]\<rparr>,
      \<lparr>Type = 1, Length = 4, Data = [255, 255, 255, 0]\<rparr>,
      \<lparr>Type = 51, Length = 4, Data = [0x00, 0x00, 0x01, 0x2C]\<rparr>,
      \<lparr>Type = 53, Length = 1, Data = [2]\<rparr>,
      \<lparr>Type = 54, Length = 4, Data = [10, 0, 0, 1]\<rparr>,
      \<lparr>Type = 121, Length = 9,
       Data = [0x20, 0xAC, 0x10, 0x00, 0x01, 0x0A, 0x00, 0x00, 0x01]\<rparr>]"
  by code_simp

section \<open>Facts about the server\<close>

lemma IP_String_24:
  "IP_String 0x0A000000 = ''10.0.0.0''" "IP_String 0x0A000001 = ''10.0.0.1''"
  "IP_String 0x0A000002 = ''10.0.0.2''" "IP_String 0x0A000003 = ''10.0.0.3''"
  "IP_String 0x0A0000FF = ''10.0.0.255''"
  by code_simp+

lemma eval_24:
  "ParseCIDR 0x0A000000 24 = Some (0x0A000000, \<lparr>IPNet.IP = 0x0A000000, Mask = 0xFFFFFF00\<rparr>)"
  "IP_Mask 0x0A000000 0xFFFFFF00 = 0x0A000000"
  "lastAddr \<lparr>IPNet.IP = 0x0A000000, Mask = 0xFFFFFF00\<rparr> = 0x0A0000FF"
  "cidr_text 0x0A000000 24 = ''10.0.0.0/24''"
  "Contains \<lparr>IPNet.IP = 0x0A000000, Mask = 0xFFFFFF00\<rparr> 0x0A000000"
  "Contains \<lparr>IPNet.IP = 0x0A000000, Mask = 0xFFFFFF00\<rparr> 0x0A000001"
  "Contains \<lparr>IPNet.IP = 0x0A000000, Mask = 0xFFFFFF00\<rparr> 0x0A000002"
  "Contains \<lparr>IPNet.IP = 0x0A000000, Mask = 0xFFFFFF00\<rparr> 0x0A000003"
  "String_of_IP [10, 0, 0, 3] = ''10.0.0.3''"
  "String_of_IP [10, 0, 0, 9] = ''10.0.0.9''"
  "String_of_IP [10, 0, 0, 255] = ''10.0.0.255''"
  by code_simp+

lemma NewIPPam_24: "NewIPPam 0x0A000000 24 = Inr pool24"
  by (simp add: NewIPPam_def eval_24 IP_String_24 pool24_def sentinel_def)

lemma NewWebTunnelServer_24:
  "NewWebTunnelServer '':8811'' ''10.0.0.1'' ''255.255.255.0'' 0x0A000000 24
     [''172.16.0.1/32'', ''172.16.0.2/32''] = Inr (server24 leases0)"
proof -
  have c: "Contains (ipnet pool24) 0x0A000001" by (simp add: pool24_def eval_24)
  have f: "allocations pool24 (IP_String 0x0A000001) = None"
    by (simp add: pool24_def IP_String_24)
  from AcquireSpecificIP_ok[OF c f, of "Some EmptyStruct"] show ?thesis
    by (simp add: NewWebTunnelServer_def NewIPPam_24 IP_String_24 eval_24 server24_def
          leases0_def gw_entry_def pool24_def)
qed

lemma scan_24:
  "AcquireIP_scan leases0 \<lparr>IPNet.IP = 0x0A000000, Mask = 0xFFFFFF00\<rparr> 0x0A000000 =
     Some (Found 0x0A000002)"
  "AcquireIP_scan leases1 \<lparr>IPNet.IP = 0x0A000000, Mask = 0xFFFFFF00\<rparr> 0x0A000000 =
     Some (Found 0x0A000003)"
proof -
  let ?n = "\<lparr>IPNet.IP = 0x0A000000, Mask = 0xFFFFFF00\<rparr>"
  have "AcquireIP_scan leases0 ?n 0x0A000000 = AcquireIP_scan leases0 ?n 0x0A000001"
    using scan_skip[of ?n "0x0A000000" leases0]
    by (simp add: eval_24 IP_String_24 leases0_def)
  also have "\<dots> = AcquireIP_scan leases0 ?n 0x0A000002"
    using scan_skip[of ?n "0x0A000001" leases0]
    by (simp add: eval_24 IP_String_24 leases0_def)
  also have "\<dots> = Some (Found 0x0A000002)"
    using scan_found[of ?n "0x0A000002" leases0]
    by (simp add: eval_24 IP_String_24 leases0_def)
  finally show "AcquireIP_scan leases0 ?n 0x0A000000 = Some (Found 0x0A000002)" .
  have "AcquireIP_scan leases1 ?n 0x0A000000 = AcquireIP_scan leases1 ?n 0x0A000001"
    using scan_skip[of ?n "0x0A000000" leases1]
    by (simp add: eval_24 IP_String_24 leases0_def leases1_def)
  also have "\<dots> = AcquireIP_scan leases1 ?n 0x0A000002"
    using scan_skip[of ?n "0x0A000001" leases1]
    by (simp add: eval_24 IP_String_24 leases0_def leases1_def)
  also have "\<dots> = AcquireIP_scan leases1 ?n 0x0A000003"
    using scan_skip[of ?n "0x0A000002" leases1]
    by (simp add: eval_24 IP_String_24 leases0_def leases1_def)
  also have "\<dots> = Some (Found 0x0A000003)"
    using scan_found[of ?n "0x0A000003" leases1]
    by (simp add: eval_24 IP_String_24 leases0_def leases1_def)
  finally show "AcquireIP_scan leases1 ?n 0x0A000000 = Some (Found 0x0A000003)" .
qed

lemma acquire_24:
  "wsEndpoint_acquire (server24 leases0) 1 = Some (server24 leases1, Some ''10.0.0.2'')"
  "wsEndpoint_acquire (server24 leases1) 2 = Some (server24 leases2, Some ''10.0.0.3'')"
proof -
  show "wsEndpoint_acquire (server24 leases0) 1 = Some (server24 leases1, Some ''10.0.0.2'')"
    by (simp add: wsEndpoint_acquire_def AcquireIP_def server24_def pool24_def eval_24 scan_24
          IP_String_24 leases1_def lease_entry_def)
  show "wsEndpoint_acquire (server24 leases1) 2 = Some (server24 leases2, Some ''10.0.0.3'')"
    by (simp add: wsEndpoint_acquire_def AcquireIP_def server24_def pool24_def eval_24 scan_24
          IP_String_24 leases2_def lease_entry_def)
qed

lemma AcquireIP_entry:
  assumes "AcquireIP i d = Some (i', Inr a)"
  shows "allocations i' a = Some \<lparr>ipStatus = ipStatusRequested, data = d, userinfo = None\<rparr>"
  using assms
  by (auto simp add: AcquireIP_def split: option.splits scan_result.splits)

lemma Read_into_length:
  "length bytes \<le> length pkt \<Longrightarrow>
   length (Read_into pkt bytes) = length pkt \<and> take (length bytes) (Read_into pkt bytes) = bytes"
  by (simp add: Read_into_def)

lemma processTUNPacket_in_use:
  assumes "IPv4Layer (NewPacket g (Read_into pkt bytes) LayerTypeIPv4) = Some ipv4"
    and "allocations (ipam r) (String_of_IP (DstIP ipv4)) = Some v"
    and "ipStatus v = ipStatusInUse" "data v = Some (Conn ws)"
  shows "processTUNPacket_turn g env r pkt (Inr bytes) =
           (Read_into pkt bytes,
            [ConnWriteMessage ws BinaryMessage (Read_into pkt bytes)], Continue)"
  using assms by (simp add: processTUNPacket_turn_def Let_def GetData_def)

lemma processTUNPacket_no_entry:
  assumes "IPv4Layer (NewPacket g (Read_into pkt bytes) LayerTypeIPv4) = Some ipv4"
    and "allocations (ipam r) (String_of_IP (DstIP ipv4)) = None"
  shows "processTUNPacket_turn g env r pkt (Inr bytes) = (Read_into pkt bytes, [], Continue)"
  using assms by (simp add: processTUNPacket_turn_def Let_def GetData_def)

lemma processTUNPacket_sentinel:
  assumes "IPv4Layer (NewPacket g (Read_into pkt bytes) LayerTypeIPv4) = Some ipv4"
    and "allocations (ipam r) (String_of_IP (DstIP ipv4)) = Some v"
    and "ipStatus v = ipStatusInUse" "data v = None"
  shows "processTUNPacket_turn g env r pkt (Inr bytes) =
           (Read_into pkt bytes, [ServerErrorSend None], Crash ''interface conversion'')"
  using assms by (simp add: processTUNPacket_turn_def Let_def GetData_def)

section \<open>Forwarding from the TUN device\<close>

text \<open>
  C1. Two connections acquire \<^verbatim>\<open>10.0.0.2\<close> and \<^verbatim>\<open>10.0.0.3\<close> through \<^verbatim>\<open>wsEndpoint\<close>. The
  handler leaves both leases requested: nothing in the server calls
  \<^verbatim>\<open>SetIPActiveWithUserInfo\<close>. \<^verbatim>\<open>GetData\<close> answers only for a lease in use, so a packet for
  \<^verbatim>\<open>10.0.0.3\<close> read from the TUN device is dropped: nothing is written to any connection.
  (\<open>processTUNPacket_in_use\<close> is the delivery to a lease in use, which writes the whole
  read buffer; \<open>processTUNPacket_no_entry\<close> is the drop for an address without entry.)
\<close>

theorem processTUNPacket_requested_dropped:
  "NewWebTunnelServer '':8811'' ''10.0.0.1'' ''255.255.255.0'' 0x0A000000 24
     [''172.16.0.1/32'', ''172.16.0.2/32''] = Inr (server24 leases0) \<and>
   wsEndpoint_acquire (server24 leases0) 1 = Some (server24 leases1, Some ''10.0.0.2'') \<and>
   wsEndpoint_acquire (server24 leases1) 2 = Some (server24 leases2, Some ''10.0.0.3'') \<and>
   GetData (ipam (server24 leases2)) ''10.0.0.3'' = Inl (Err ''IP not marked in use'') \<and>
   snd (processTUNPacket_turn (gopacket_of (packet_to [10, 0, 0, 3])) env_ok (server24 leases2)
          (replicate 2048 0) (Inr header_to_3)) = ([], Continue)"
proof -
  have g: "GetData (ipam (server24 leases2)) ''10.0.0.3'' = Inl (Err ''IP not marked in use'')"
    by (simp add: GetData_def server24_def leases2_def lease_entry_def
          ipStatusRequested_def ipStatusInUse_def)
  then have "snd (processTUNPacket_turn (gopacket_of (packet_to [10, 0, 0, 3])) env_ok
          (server24 leases2) (replicate 2048 0) (Inr header_to_3)) = ([], Continue)"
    by (simp add: processTUNPacket_turn_def Let_def gopacket_of_def packet_to_def eval_24)
  with g NewWebTunnelServer_24 acquire_24 show ?thesis by simp
qed

section \<open>Allocation order and exhaustion\<close>

text \<open>
  C2. \<^verbatim>\<open>NewIPPam\<close> enters exactly the network and the broadcast address, both in use, and
  after the gateway is reserved successive calls of \<^verbatim>\<open>AcquireIP\<close> return the host
  addresses in ascending order and then the exhaustion error: that is
  \<open>AcquireIP_ascending\<close>, for every prefix length from 1 to 32. For the prefix length 0
  the network is the whole address space, the increment wraps around from
  \<^verbatim>\<open>255.255.255.255\<close> to \<^verbatim>\<open>0.0.0.0\<close>, which is in the network again, and once every address
  has an entry the scan never leaves its loop: the call does not return, and the
  exhaustion error after the loop is never reached.
\<close>

theorem AcquireIP_slash0_never_returns: "AcquireIP full_pool0 (Some 7) = None"
  by (rule AcquireIP_slash0_full[OF pool_full_pool0])
     (simp add: full_pool0_def parse_string)

section \<open>Release\<close>

text \<open>
  C7. \<^verbatim>\<open>ReleaseIP\<close> on the network or the broadcast address fails and leaves the manager
  as it was. On any other key that has an entry it removes the entry and returns no error.
  In a pool, when the released address is a host address and every lower host address has
  an entry, the next \<^verbatim>\<open>AcquireIP\<close> returns the released address again.
\<close>

theorem ReleaseIP_spec:
  "ReleaseIP i (IP_String (net i)) =
     (i, Some (Err ''cannot release network or broadcast address'')) \<and>
   ReleaseIP i (IP_String (bcast i)) =
     (i, Some (Err ''cannot release network or broadcast address'')) \<and>
   (\<forall>key. key \<noteq> IP_String (net i) \<and> key \<noteq> IP_String (bcast i) \<and> allocations i key \<noteq> None \<longrightarrow>
      ReleaseIP i key = (i\<lparr>allocations := (allocations i)(key := None)\<rparr>, None)) \<and>
   (\<forall>x d. pool a n i \<and> Contains (ipnet i) x \<and> x \<noteq> net i \<and> x \<noteq> bcast i \<and>
      allocations i (IP_String x) \<noteq> None \<and>
      (\<forall>y. Contains (ipnet i) y \<and> y < x \<and> y \<noteq> net i \<longrightarrow> allocations i (IP_String y) \<noteq> None) \<longrightarrow>
      (\<exists>i'. AcquireIP (fst (ReleaseIP i (IP_String x))) d = Some (i', Inr (IP_String x)) \<and>
            allocations i' (IP_String x) =
              Some \<lparr>ipStatus = ipStatusRequested, data = d, userinfo = None\<rparr>))"
proof (intro conjI allI impI)
  show "ReleaseIP i (IP_String (net i)) =
     (i, Some (Err ''cannot release network or broadcast address''))"
    by (simp add: ReleaseIP_def)
  show "ReleaseIP i (IP_String (bcast i)) =
     (i, Some (Err ''cannot release network or broadcast address''))"
    by (simp add: ReleaseIP_def)
next
  fix key
  assume "key \<noteq> IP_String (net i) \<and> key \<noteq> IP_String (bcast i) \<and> allocations i key \<noteq> None"
  then show "ReleaseIP i key = (i\<lparr>allocations := (allocations i)(key := None)\<rparr>, None)"
    by (auto simp add: ReleaseIP_def)
next
  fix x d
  assume h: "pool a n i \<and> Contains (ipnet i) x \<and> x \<noteq> net i \<and> x \<noteq> bcast i \<and>
      allocations i (IP_String x) \<noteq> None \<and>
      (\<forall>y. Contains (ipnet i) y \<and> y < x \<and> y \<noteq> net i \<longrightarrow> allocations i (IP_String y) \<noteq> None)"
  let ?i = "i\<lparr>allocations := (allocations i)(IP_String x := None)\<rparr>"
  from h have p: "pool a n i" and c: "Contains (ipnet i) x" and xn: "x \<noteq> net i"
    and xb: "x \<noteq> bcast i" and ax: "allocations i (IP_String x) \<noteq> None"
    and lowh: "\<forall>y. Contains (ipnet i) y \<and> y < x \<and> y \<noteq> net i \<longrightarrow>
                 allocations i (IP_String y) \<noteq> None"
    by blast+
  from p have n: "n \<le> 32"
    and nw: "ipnet i = \<lparr>IPNet.IP = IP_Mask a (CIDRMask n), Mask = CIDRMask n\<rparr>"
    and netal: "allocations i (IP_String (net i)) \<noteq> None"
    unfolding pool_def by blast+
  have ne: "IP_String x \<noteq> IP_String (net i)" "IP_String x \<noteq> IP_String (bcast i)"
    using xn xb by (simp_all add: IP_String_inj)
  have rel: "ReleaseIP i (IP_String x) = (?i, None)"
    using ne ax by (auto simp add: ReleaseIP_def)
  have p': "pool a n ?i"
    by (rule ReleaseIP_pool[OF p ne])
  have xin: "x \<in> set (network_addrs a n)"
    using c by (simp add: set_network_addrs[OF n] nw)
  have low: "\<forall>y \<in> set (network_addrs a n). y < x \<longrightarrow> \<not> (allocations ?i (IP_String y) = None)"
  proof (intro ballI impI)
    fix y assume y: "y \<in> set (network_addrs a n)" "y < x"
    then have cy: "Contains (ipnet i) y" by (simp add: set_network_addrs[OF n] nw)
    have "allocations i (IP_String y) \<noteq> None"
      using lowh cy y(2) netal by (cases "y = net i") auto
    then show "\<not> (allocations ?i (IP_String y) = None)"
      using y(2) by (auto simp add: IP_String_inj)
  qed
  have fx: "allocations ?i (IP_String x) = None" by simp
  from first_free_lowest[OF sorted_network_addrs[OF n] xin fx low]
  obtain xs where
    F: "filter (\<lambda>y. allocations ?i (IP_String y) = None) (network_addrs a n) = x # xs"
    by auto
  show "\<exists>i'. AcquireIP (fst (ReleaseIP i (IP_String x))) d = Some (i', Inr (IP_String x)) \<and>
            allocations i' (IP_String x) =
              Some \<lparr>ipStatus = ipStatusRequested, data = d, userinfo = None\<rparr>"
    using AcquireIP_pool(1)[OF p' F, of d] by (simp add: rel)
qed

theorem ReleaseIP_spec_witness:
  "ReleaseIP pool29_busy ''192.168.0.0'' =
     (pool29_busy, Some (Err ''cannot release network or broadcast address'')) \<and>
   ReleaseIP pool29_busy ''192.168.0.7'' =
     (pool29_busy, Some (Err ''cannot release network or broadcast address'')) \<and>
   allocations pool29_busy ''192.168.0.3'' = Some (conn_entry ipStatusRequested 2) \<and>
   ReleaseIP pool29_busy ''192.168.0.3'' =
     (pool29_busy\<lparr>allocations := (allocations pool29_busy)(''192.168.0.3'' := None)\<rparr>, None) \<and>
   (\<exists>i'. AcquireIP (fst (ReleaseIP pool29_busy ''192.168.0.3'')) (Some 9) =
            Some (i', Inr ''192.168.0.3''))"
proof -
  note spec = ReleaseIP_spec[of pool29_busy "0xC0A80000" 29]
  have fields: "net pool29_busy = 0xC0A80000" "bcast pool29_busy = 0xC0A80007"
    by (simp_all add: pool29_busy_def pool29_def)
  have al3: "allocations pool29_busy ''192.168.0.3'' = Some (conn_entry ipStatusRequested 2)"
    by (simp add: pool29_busy_def)
  have c: "Contains (ipnet pool29_busy) 0xC0A80003"
    by (simp add: pool29_busy_def pool29_def Contains_def)
  have low: "\<forall>y. Contains (ipnet pool29_busy) y \<and> y < 0xC0A80003 \<and> y \<noteq> net pool29_busy \<longrightarrow>
               allocations pool29_busy (IP_String y) \<noteq> None"
  proof (intro allI impI)
    fix y :: ipv4
    assume y: "Contains (ipnet pool29_busy) y \<and> y < 0xC0A80003 \<and> y \<noteq> net pool29_busy"
    then have "y \<in> set (network_addrs 0xC0A80000 29)"
      using set_network_addrs[of 29 "0xC0A80000"] pool_pool29_busy by (simp add: pool_def)
    with y show "allocations pool29_busy (IP_String y) \<noteq> None"
      by (auto simp add: eval_29 fields IP_String_29 pool29_busy_def)
  qed
  from spec have r0: "ReleaseIP pool29_busy ''192.168.0.0'' =
     (pool29_busy, Some (Err ''cannot release network or broadcast address''))"
    and r7: "ReleaseIP pool29_busy ''192.168.0.7'' =
     (pool29_busy, Some (Err ''cannot release network or broadcast address''))"
    by (simp_all add: fields IP_String_29)
  from spec al3 have r3: "ReleaseIP pool29_busy ''192.168.0.3'' =
     (pool29_busy\<lparr>allocations := (allocations pool29_busy)(''192.168.0.3'' := None)\<rparr>, None)"
    by (simp add: fields IP_String_29)
  have pre: "pool 0xC0A80000 29 pool29_busy \<and> Contains (ipnet pool29_busy) 0xC0A80003 \<and>
      0xC0A80003 \<noteq> net pool29_busy \<and> 0xC0A80003 \<noteq> bcast pool29_busy \<and>
      allocations pool29_busy (IP_String 0xC0A80003) \<noteq> None \<and>
      (\<forall>y. Contains (ipnet pool29_busy) y \<and> y < 0xC0A80003 \<and> y \<noteq> net pool29_busy \<longrightarrow>
         allocations pool29_busy (IP_String y) \<noteq> None)"
    using pool_pool29_busy c low al3 by (simp add: fields IP_String_29)
  from spec have "\<forall>x d. pool 0xC0A80000 29 pool29_busy \<and> Contains (ipnet pool29_busy) x \<and>
      x \<noteq> net pool29_busy \<and> x \<noteq> bcast pool29_busy \<and>
      allocations pool29_busy (IP_String x) \<noteq> None \<and>
      (\<forall>y. Contains (ipnet pool29_busy) y \<and> y < x \<and> y \<noteq> net pool29_busy \<longrightarrow>
         allocations pool29_busy (IP_String y) \<noteq> None) \<longrightarrow>
      (\<exists>i'. AcquireIP (fst (ReleaseIP pool29_busy (IP_String x))) d = Some (i', Inr (IP_String x)) \<and>
            allocations i' (IP_String x) =
              Some \<lparr>ipStatus = ipStatusRequested, data = d, userinfo = None\<rparr>)"
    by (elim conjE)
  with pre
  have "\<exists>i'. AcquireIP (fst (ReleaseIP pool29_busy (IP_String 0xC0A80003))) (Some 9) =
            Some (i', Inr (IP_String 0xC0A80003))"
    by blast
  then show ?thesis using r0 r7 r3 al3 by (simp add: IP_String_29)
qed

section \<open>User info of an entry that has none\<close>

text \<open>
  C9. \<^verbatim>\<open>GetUserinfo\<close> on an entry that is in use and stores no user info dereferences the
  nil pointer. That is so for the network and the broadcast address of a new manager and
  for an address just reserved by \<^verbatim>\<open>AcquireSpecificIP\<close>. The error is returned exactly
  when the key has no entry or its entry is not in use.
\<close>

theorem GetUserinfo_nil_userinfo:
  "(\<forall>v. allocations i key = Some v \<and> ipStatus v = ipStatusInUse \<and> userinfo v = None \<longrightarrow>
      GetUserinfo i key = Inl (Panic ''nil pointer dereference'')) \<and>
   ((\<exists>e. GetUserinfo i key = Inl (Err e)) \<longleftrightarrow>
      (allocations i key = None \<or>
       (\<exists>v. allocations i key = Some v \<and> ipStatus v \<noteq> ipStatusInUse))) \<and>
   (\<forall>a n i0. NewIPPam a n = Inr (i0 :: 'a IPPam) \<longrightarrow>
      GetUserinfo i0 (IP_String (net i0)) = Inl (Panic ''nil pointer dereference'') \<and>
      GetUserinfo i0 (IP_String (bcast i0)) = Inl (Panic ''nil pointer dereference'')) \<and>
   (\<forall>d i'. AcquireSpecificIP i key d = (i', None) \<longrightarrow>
      GetUserinfo i' key = Inl (Panic ''nil pointer dereference''))"
proof (intro conjI allI impI)
  fix v
  assume "allocations i key = Some v \<and> ipStatus v = ipStatusInUse \<and> userinfo v = None"
  then show "GetUserinfo i key = Inl (Panic ''nil pointer dereference'')"
    by (simp add: GetUserinfo_def)
next
  show "(\<exists>e. GetUserinfo i key = Inl (Err e)) \<longleftrightarrow>
      (allocations i key = None \<or>
       (\<exists>v. allocations i key = Some v \<and> ipStatus v \<noteq> ipStatusInUse))"
    by (auto simp add: GetUserinfo_def split: option.splits)
next
  fix a n and i0 :: "'a IPPam"
  assume new: "NewIPPam a n = Inr i0"
  from NewIPPam_Inr[OF new] have al: "allocations i0 =
           [IP_String (bcast i0) \<mapsto> \<lparr>ipStatus = ipStatusInUse, data = None, userinfo = None\<rparr>,
            IP_String (net i0) \<mapsto> \<lparr>ipStatus = ipStatusInUse, data = None, userinfo = None\<rparr>]"
    by blast
  show "GetUserinfo i0 (IP_String (net i0)) = Inl (Panic ''nil pointer dereference'')"
    by (simp add: GetUserinfo_def al)
  show "GetUserinfo i0 (IP_String (bcast i0)) = Inl (Panic ''nil pointer dereference'')"
    by (simp add: GetUserinfo_def al)
next
  fix d i'
  assume "AcquireSpecificIP i key d = (i', None)"
  then show "GetUserinfo i' key = Inl (Panic ''nil pointer dereference'')"
    by (auto simp add: AcquireSpecificIP_def GetUserinfo_def split: if_splits)
qed

theorem GetUserinfo_nil_userinfo_witness:
  "NewIPPam 0xC0A80000 29 = Inr pool29 \<and>
   GetUserinfo pool29 ''192.168.0.0'' = Inl (Panic ''nil pointer dereference'') \<and>
   GetUserinfo pool29 ''192.168.0.7'' = Inl (Panic ''nil pointer dereference'') \<and>
   GetUserinfo (fst (AcquireSpecificIP pool29 ''192.168.0.1'' (Some 0))) ''192.168.0.1'' =
     Inl (Panic ''nil pointer dereference'') \<and>
   (\<exists>e. GetUserinfo pool29_busy ''192.168.0.2'' = Inl (Err e)) \<and>
   (\<exists>e. GetUserinfo pool29_busy ''192.168.0.9'' = Inl (Err e))"
proof -
  note spec = GetUserinfo_nil_userinfo
  have fields: "net pool29 = 0xC0A80000" "bcast pool29 = 0xC0A80007"
    by (simp_all add: pool29_def)
  from spec[of pool29 "''192.168.0.0''"] NewIPPam_29
  have a: "GetUserinfo pool29 (IP_String (net pool29)) = Inl (Panic ''nil pointer dereference'')"
    and b: "GetUserinfo pool29 (IP_String (bcast pool29)) = Inl (Panic ''nil pointer dereference'')"
    by blast+
  from spec[of pool29 "''192.168.0.1''"] gateway_29
  have c: "GetUserinfo (fst (AcquireSpecificIP pool29 ''192.168.0.1'' (Some 0))) ''192.168.0.1'' =
     Inl (Panic ''nil pointer dereference'')"
    by (metis fst_conv)
  have "allocations pool29_busy ''192.168.0.2'' = Some (conn_entry ipStatusRequested 1) \<and>
        ipStatus (conn_entry ipStatusRequested 1 :: nat ipData) \<noteq> ipStatusInUse"
    by (simp add: pool29_busy_def conn_entry_def ipStatusRequested_def ipStatusInUse_def)
  with spec[of pool29_busy "''192.168.0.2''"]
  have d: "\<exists>e. GetUserinfo pool29_busy ''192.168.0.2'' = Inl (Err e)" by blast
  have "allocations pool29_busy ''192.168.0.9'' = None"
    by (simp add: pool29_busy_def)
  with spec[of pool29_busy "''192.168.0.9''"]
  have e: "\<exists>e. GetUserinfo pool29_busy ''192.168.0.9'' = Inl (Err e)" by blast
  show ?thesis using NewIPPam_29 a b c d e by (simp add: fields IP_String_29)
qed

section \<open>Activation of a lease\<close>

text \<open>
  C10. \<^verbatim>\<open>SetIPActiveWithUserInfo\<close> fails exactly when the key has no entry. For every
  entry there is, whatever its status and whether or not it is a sentinel, the call
  returns no error, the entry's status becomes in-use, its user info is the new user
  name, host name and session start (whatever was stored before), its data stays, and
  no other entry changes.
\<close>

theorem SetIPActiveWithUserInfo_spec:
  "(snd (SetIPActiveWithUserInfo i key u h now) \<noteq> None \<longleftrightarrow> allocations i key = None) \<and>
   (allocations i key = None \<longrightarrow> fst (SetIPActiveWithUserInfo i key u h now) = i) \<and>
   (\<forall>v. allocations i key = Some v \<longrightarrow>
      snd (SetIPActiveWithUserInfo i key u h now) = None \<and>
      allocations (fst (SetIPActiveWithUserInfo i key u h now)) key =
        Some \<lparr>ipStatus = ipStatusInUse, data = data v,
              userinfo = Some \<lparr>username = u, hostname = h, sessionStart = now\<rparr>\<rparr> \<and>
      (\<forall>k. k \<noteq> key \<longrightarrow>
         allocations (fst (SetIPActiveWithUserInfo i key u h now)) k = allocations i k))"
  by (cases "allocations i key") (simp_all add: SetIPActiveWithUserInfo_def)

theorem SetIPActiveWithUserInfo_spec_witness:
  "allocations pool29_busy ''192.168.0.2'' = Some (conn_entry ipStatusRequested 1) \<and>
   snd (SetIPActiveWithUserInfo pool29_busy ''192.168.0.2'' ''alice'' ''laptop'' 7) = None \<and>
   allocations (fst (SetIPActiveWithUserInfo pool29_busy ''192.168.0.2'' ''alice'' ''laptop'' 7))
       ''192.168.0.2'' =
     Some \<lparr>ipStatus = ipStatusInUse, data = Some 1,
           userinfo = Some \<lparr>username = ''alice'', hostname = ''laptop'', sessionStart = 7\<rparr>\<rparr> \<and>
   allocations pool29_busy ''192.168.0.0'' = Some sentinel \<and>
   snd (SetIPActiveWithUserInfo pool29_busy ''192.168.0.0'' ''alice'' ''laptop'' 7) = None \<and>
   allocations pool29_busy ''192.168.0.9'' = None \<and>
   snd (SetIPActiveWithUserInfo pool29_busy ''192.168.0.9'' ''alice'' ''laptop'' 7) \<noteq> None"
proof -
  have a2: "allocations pool29_busy ''192.168.0.2'' = Some (conn_entry ipStatusRequested 1)"
    and a0: "allocations pool29_busy ''192.168.0.0'' = Some sentinel"
    and a9: "allocations pool29_busy ''192.168.0.9'' = None"
    by (simp_all add: pool29_busy_def)
  from SetIPActiveWithUserInfo_spec[of pool29_busy "''192.168.0.2''" "''alice''" "''laptop''" 7] a2
  have r2: "snd (SetIPActiveWithUserInfo pool29_busy ''192.168.0.2'' ''alice'' ''laptop'' 7) = None \<and>
   allocations (fst (SetIPActiveWithUserInfo pool29_busy ''192.168.0.2'' ''alice'' ''laptop'' 7))
       ''192.168.0.2'' =
     Some \<lparr>ipStatus = ipStatusInUse, data = Some 1,
           userinfo = Some \<lparr>username = ''alice'', hostname = ''laptop'', sessionStart = 7\<rparr>\<rparr>"
    by (simp add: conn_entry_def)
  from SetIPActiveWithUserInfo_spec[of pool29_busy "''192.168.0.0''" "''alice''" "''laptop''" 7] a0
  have r0: "snd (SetIPActiveWithUserInfo pool29_busy ''192.168.0.0'' ''alice'' ''laptop'' 7) = None"
    by simp
  from SetIPActiveWithUserInfo_spec[of pool29_busy "''192.168.0.9''" "''alice''" "''laptop''" 7] a9
  have r9: "snd (SetIPActiveWithUserInfo pool29_busy ''192.168.0.9'' ''alice'' ''laptop'' 7) \<noteq> None"
    by simp
  show ?thesis using a2 a0 a9 r2 r0 r9 by simp
qed

section \<open>The DHCP reply\<close>

text \<open>
  C3. For a DHCPDISCOVER (a DHCPREQUEST) the responder hands to the serialiser, and
  writes to the device what it returns, an Ethernet, IPv4, UDP and DHCP layer: the DHCP
  layer is a BOOTREPLY with the request's transaction id, the client's address as
  \<^verbatim>\<open>yiaddr\<close>, the gateway as \<^verbatim>\<open>siaddr\<close>, the Ethernet source of the request as
  \<^verbatim>\<open>chaddr\<close>, and the options of the specification in its order, with message type OFFER
  (ACK): a DNS option per server, the subnet mask, the lease time in four big-endian
  bytes, the message type, the server identifier, and the classless static routes, each
  the prefix length, the significant bytes of the network and the gateway. The route
  prefixes are IPv4 prefixes as \<^verbatim>\<open>net.ParseCIDR\<close> returns them.
\<close>

theorem handleDHCP_reply:
  assumes layers: "DHCPv4Layer p = Some dhcp" "UDPLayer p = Some udp" "IPv4Layer p = Some ipv4"
      "EthernetLayer p = Some eth"
    and mt: "msgType_loop 0 (Options dhcp) = Inr mt"
    and kind: "mt = DHCPMsgTypeDiscover \<and> rt = DHCPMsgTypeOffer \<or>
               mt = DHCPMsgTypeRequest \<and> rt = DHCPMsgTypeAck"
    and routes: "Interface.RoutePrefix (ifce w) = map parsed_prefix cidrs"
      "\<forall>c \<in> set cidrs. snd c \<le> 32"
  shows "handleDHCP g env w p =
     (case SerializeLayers g
        [LEthernet \<lparr>SrcMAC = gwHWAddr (ifce w), DstMAC = [0xFF, 0xFF, 0xFF, 0xFF, 0xFF, 0xFF],
                    EthernetType = EthernetTypeIPv4, Payload = []\<rparr>,
         LIPv4 \<lparr>Version = Version ipv4, TTL = TTL ipv4, SrcIP = GWIP (ifce w),
                DstIP = [255, 255, 255, 255], Protocol = IPProtocolUDP\<rparr>,
         LUDP \<lparr>SrcPort = DstPort udp, DstPort = SrcPort udp\<rparr>,
         LDHCPv4 \<lparr>Operation = DHCPOpReply, HardwareType = LinkTypeEthernet,
                  HardwareLen = HardwareLen dhcp, Xid = Xid dhcp,
                  YourClientIP = Interface.IP (ifce w), NextServerIP = GWIP (ifce w),
                  ClientHWAddr = SrcMAC eth, Options = spec_options w rt cidrs\<rparr>] of
        Inl e \<Rightarrow> ([], Some (Err (''error serializelayer '' @ error_text e)))
      | Inr buffer \<Rightarrow> ([IfceWrite buffer], Write_error env)) \<and>
     ip_of_bytes (PutUint32 (leaseTime (ifce w))) = leaseTime (ifce w) \<and>
     length (PutUint32 (leaseTime (ifce w))) = 4"
proof -
  have d: "DHCPMsgTypeRequest \<noteq> DHCPMsgTypeDiscover"
    by (simp add: DHCPMsgTypeRequest_def DHCPMsgTypeDiscover_def)
  have b: "ip_of_bytes (PutUint32 (leaseTime (ifce w))) = leaseTime (ifce w)"
    by (simp add: PutUint32_ip_bytes ip_of_bytes_ip_bytes)
  have l: "length (PutUint32 (leaseTime (ifce w))) = 4" by (simp add: PutUint32_def)
  from kind show ?thesis
  proof
    assume "mt = DHCPMsgTypeDiscover \<and> rt = DHCPMsgTypeOffer"
    then show ?thesis
      using buildDHCPopts_eq[OF routes, of DHCPMsgTypeOffer] b l
      by (simp add: handleDHCP_def layers mt Let_def)
  next
    assume "mt = DHCPMsgTypeRequest \<and> rt = DHCPMsgTypeAck"
    then show ?thesis
      using buildDHCPopts_eq[OF routes, of DHCPMsgTypeAck] b l d
      by (simp add: handleDHCP_def layers mt Let_def)
  qed
qed

theorem handleDHCP_reply_witness:
  "handleDHCP (gopacket_of (dhcp_packet DHCPMsgTypeDiscover)) env_ok client_ex
     (dhcp_packet DHCPMsgTypeDiscover) =
   ([IfceWrite
      [LEthernet \<lparr>SrcMAC = gw_hw, DstMAC = [0xFF, 0xFF, 0xFF, 0xFF, 0xFF, 0xFF],
                  EthernetType = EthernetTypeIPv4, Payload = []\<rparr>,
       LIPv4 \<lparr>Version = 4, TTL = 64, SrcIP = [10, 0, 0, 1],
              DstIP = [255, 255, 255, 255], Protocol = IPProtocolUDP\<rparr>,
       LUDP \<lparr>SrcPort = 67, DstPort = 68\<rparr>,
       LDHCPv4 \<lparr>Operation = 2, HardwareType = 1, HardwareLen = 6, Xid = 0xAABBCCDD,
                YourClientIP = [10, 0, 0, 2], NextServerIP = [10, 0, 0, 1],
                ClientHWAddr = [0x02, 0x00, 0x00, 0x00, 0x00, 0x01],
                Options =
                  [\<lparr>Type = 6, Length = 4, Data = [8, 8, 8, 8]\<rparr>,
                   \<lparr>Type = 1, Length = 4, Data = [255, 255, 255, 0]\<rparr>,
                   \<lparr>Type = 51, Length = 4, Data = [0x00, 0x00, 0x01, 0x2C]\<rparr>,
                   \<lparr>Type = 53, Length = 1, Data = [2]\<rparr>,
                   \<lparr>Type = 54, Length = 4, Data = [10, 0, 0, 1]\<rparr>,
                   \<lparr>Type = 121, Length = 9,
                    Data = [0x20, 0xAC, 0x10, 0x00, 0x01, 0x0A, 0x00, 0x00, 0x01]\<rparr>]\<rparr>]],
    None)"
proof -
  let ?p = "dhcp_packet DHCPMsgTypeDiscover"
  have layers: "DHCPv4Layer ?p = Some (dhcp_request DHCPMsgTypeDiscover)"
    "UDPLayer ?p = Some \<lparr>SrcPort = 68, DstPort = 67\<rparr>"
    "IPv4Layer ?p = Some \<lparr>Version = 4, TTL = 64, SrcIP = [0, 0, 0, 0],
                         DstIP = [255, 255, 255, 255], Protocol = IPProtocolUDP\<rparr>"
    "EthernetLayer ?p = Some \<lparr>SrcMAC = client_mac, DstMAC = [0xFF, 0xFF, 0xFF, 0xFF, 0xFF, 0xFF],
                             EthernetType = EthernetTypeIPv4, Payload = []\<rparr>"
    by (simp_all add: dhcp_packet_def)
  have mt: "msgType_loop 0 (Options (dhcp_request DHCPMsgTypeDiscover)) = Inr DHCPMsgTypeDiscover"
    by (simp add: dhcp_request_def NewDHCPOption_def)
  have kind: "DHCPMsgTypeDiscover = DHCPMsgTypeDiscover \<and> DHCPMsgTypeOffer = DHCPMsgTypeOffer \<or>
              DHCPMsgTypeDiscover = DHCPMsgTypeRequest \<and> DHCPMsgTypeOffer = DHCPMsgTypeAck"
    by simp
  have routes: "Interface.RoutePrefix (ifce client_ex) = map parsed_prefix [(0xAC100001, 32)]"
    "\<forall>c \<in> set [(0xAC100001 :: ipv4, 32 :: nat)]. snd c \<le> 32"
    by (simp_all add: client_ex_def)
  note r = handleDHCP_reply[OF layers mt kind routes, of "gopacket_of ?p" env_ok,
             unfolded spec_options_ex]
  from r show ?thesis
    by (simp add: gopacket_of_def env_ok_def client_ex_def dhcp_request_def
          client_mac_def DHCPOpReply_def LinkTypeEthernet_def)
qed

section \<open>The ARP reply\<close>

text \<open>
  C4. For an ARP request the responder hands to the serialiser, and writes to the device
  what it returns, one ARP reply: sender hardware address the gateway MAC, sender
  protocol address the request's target protocol address, target hardware and protocol
  address the request's sender hardware and protocol address, types and sizes as in the
  request, in an Ethernet frame from the gateway MAC to the Ethernet source of the
  request's frame. That is the sender hardware address of the ARP packet only when the
  two agree; the example after the theorem is a request in which they differ. For an ARP
  packet that is not a request the responder does nothing.
\<close>

theorem handleArp_reply:
  assumes "ARPLayer p = Some arp" "EthernetLayer p = Some eth"
  shows "(ARP.Operation arp = ARPRequest \<longrightarrow>
           handleArp g env w p =
             (case SerializeLayers g
                [LEthernet \<lparr>SrcMAC = gwHWAddr (ifce w), DstMAC = SrcMAC eth,
                            EthernetType = EthernetTypeARP, Payload = []\<rparr>,
                 LARP \<lparr>AddrType = AddrType arp, Protocol = ARP.Protocol arp,
                       HwAddressSize = HwAddressSize arp, ProtAddressSize = ProtAddressSize arp,
                       Operation = ARPReply, SourceHwAddress = gwHWAddr (ifce w),
                       SourceProtAddress = DstProtAddress arp,
                       DstHwAddress = SourceHwAddress arp,
                       DstProtAddress = SourceProtAddress arp\<rparr>] of
                Inl e \<Rightarrow> ([], Some (Err (''error Serializelayer '' @ error_text e)))
              | Inr buffer \<Rightarrow> ([IfceWrite buffer], Write_error env))) \<and>
         (ARP.Operation arp \<noteq> ARPRequest \<longrightarrow> handleArp g env w p = ([], None))"
  using assms by (simp add: handleArp_def Let_def)

theorem handleArp_reply_witness:
  "handleArp (gopacket_of (arp_packet client_mac)) env_ok client_ex (arp_packet client_mac) =
     ([IfceWrite
        [LEthernet \<lparr>SrcMAC = gw_hw, DstMAC = client_mac,
                    EthernetType = EthernetTypeARP, Payload = []\<rparr>,
         LARP \<lparr>AddrType = LinkTypeEthernet, Protocol = EthernetTypeIPv4, HwAddressSize = 6,
               ProtAddressSize = 4, Operation = ARPReply, SourceHwAddress = gw_hw,
               SourceProtAddress = [10, 0, 0, 5], DstHwAddress = client_mac,
               DstProtAddress = [10, 0, 0, 2]\<rparr>]],
      None) \<and>
   handleArp (gopacket_of (arp_packet client_mac)) env_ok client_ex
     ((arp_packet client_mac)\<lparr>ARPLayer := Some (arp_request\<lparr>ARP.Operation := ARPReply\<rparr>)\<rparr>) =
     ([], None)"
proof -
  let ?p = "arp_packet client_mac"
  let ?q = "?p\<lparr>ARPLayer := Some (arp_request\<lparr>ARP.Operation := ARPReply\<rparr>)\<rparr>"
  have p: "ARPLayer ?p = Some arp_request"
    "EthernetLayer ?p = Some \<lparr>SrcMAC = client_mac, DstMAC = [0xFF, 0xFF, 0xFF, 0xFF, 0xFF, 0xFF],
                             EthernetType = EthernetTypeARP, Payload = []\<rparr>"
    by (simp_all add: arp_packet_def)
  have q: "ARPLayer ?q = Some (arp_request\<lparr>ARP.Operation := ARPReply\<rparr>)"
    "EthernetLayer ?q = Some \<lparr>SrcMAC = client_mac, DstMAC = [0xFF, 0xFF, 0xFF, 0xFF, 0xFF, 0xFF],
                             EthernetType = EthernetTypeARP, Payload = []\<rparr>"
    by (simp_all add: arp_packet_def)
  have ne: "ARPReply \<noteq> ARPRequest" by (simp add: ARPReply_def ARPRequest_def)
  from handleArp_reply[OF p, of "gopacket_of ?p" env_ok client_ex]
  have a: "handleArp (gopacket_of ?p) env_ok client_ex ?p =
     ([IfceWrite
        [LEthernet \<lparr>SrcMAC = gw_hw, DstMAC = client_mac,
                    EthernetType = EthernetTypeARP, Payload = []\<rparr>,
         LARP \<lparr>AddrType = LinkTypeEthernet, Protocol = EthernetTypeIPv4, HwAddressSize = 6,
               ProtAddressSize = 4, Operation = ARPReply, SourceHwAddress = gw_hw,
               SourceProtAddress = [10, 0, 0, 5], DstHwAddress = client_mac,
               DstProtAddress = [10, 0, 0, 2]\<rparr>]],
      None)"
    by (simp add: arp_request_def gopacket_of_def env_ok_def client_ex_def)
  from handleArp_reply[OF q, of "gopacket_of ?p" env_ok client_ex] ne
  have b: "handleArp (gopacket_of ?p) env_ok client_ex ?q = ([], None)"
    by (simp add: arp_request_def)
  from a b show ?thesis by simp
qed

theorem handleArp_ethernet_destination:
  "handleArp (gopacket_of (arp_packet [0x02, 0x00, 0x00, 0x00, 0x00, 0x02])) env_ok client_ex
     (arp_packet [0x02, 0x00, 0x00, 0x00, 0x00, 0x02]) =
     ([IfceWrite
        [LEthernet \<lparr>SrcMAC = gw_hw, DstMAC = [0x02, 0x00, 0x00, 0x00, 0x00, 0x02],
                    EthernetType = EthernetTypeARP, Payload = []\<rparr>,
         LARP \<lparr>AddrType = LinkTypeEthernet, Protocol = EthernetTypeIPv4, HwAddressSize = 6,
               ProtAddressSize = 4, Operation = ARPReply, SourceHwAddress = gw_hw,
               SourceProtAddress = [10, 0, 0, 5],
               DstHwAddress = [0x02, 0x00, 0x00, 0x00, 0x00, 0x01],
               DstProtAddress = [10, 0, 0, 2]\<rparr>]],
      None) \<and>
   ARPLayer (arp_packet [0x02, 0x00, 0x00, 0x00, 0x00, 0x02]) = Some arp_request \<and>
   SourceHwAddress arp_request = [0x02, 0x00, 0x00, 0x00, 0x00, 0x01] \<and>
   [0x02, 0x00, 0x00, 0x00, 0x00, 0x02] \<noteq> SourceHwAddress arp_request"
  by (simp add: handleArp_def arp_packet_def arp_request_def Let_def gopacket_of_def env_ok_def
        client_ex_def client_mac_def)

section \<open>DHCPRELEASE\<close>

text \<open>
  C6. For a DHCPRELEASE the responder logs the warning and then goes on as for every
  message: it builds a BOOTREPLY, here without options, and writes the frame to the
  device.
\<close>

theorem handleDHCP_release_writes:
  "handleDHCP (gopacket_of (dhcp_packet DHCPMsgTypeRelease)) env_ok client_ex
     (dhcp_packet DHCPMsgTypeRelease) =
   ([IfceWrite
      [LEthernet \<lparr>SrcMAC = gw_hw, DstMAC = [0xFF, 0xFF, 0xFF, 0xFF, 0xFF, 0xFF],
                  EthernetType = EthernetTypeIPv4, Payload = []\<rparr>,
       LIPv4 \<lparr>Version = 4, TTL = 64, SrcIP = [10, 0, 0, 1],
              DstIP = [255, 255, 255, 255], Protocol = IPProtocolUDP\<rparr>,
       LUDP \<lparr>SrcPort = 67, DstPort = 68\<rparr>,
       LDHCPv4 \<lparr>Operation = DHCPOpReply, HardwareType = LinkTypeEthernet, HardwareLen = 6,
                Xid = 0xAABBCCDD, YourClientIP = [10, 0, 0, 2], NextServerIP = [10, 0, 0, 1],
                ClientHWAddr = client_mac, Options = []\<rparr>]],
    None)"
  by (simp add: handleDHCP_def dhcp_packet_def dhcp_request_def NewDHCPOption_def Let_def
        gopacket_of_def env_ok_def client_ex_def
        DHCPMsgTypeRelease_def DHCPMsgTypeDiscover_def DHCPMsgTypeRequest_def)

section \<open>Multicast from the tap device\<close>

text \<open>
  C8. On a TAP device, a frame that decodes to an IPv4 layer with a multicast
  destination leads to no message on the WebSocket, whatever else the frame holds.
\<close>

theorem multicast_not_forwarded:
  assumes "IsTAP (ifce w)"
    and "IPv4Layer (NewPacket g pkt LayerTypeEthernet) = Some ipv4"
    and "IsMulticast (DstIP ipv4)"
  shows "WSWriteMessage mt payload \<notin> set (fst (processNetPacket_turn g env w (Inr pkt)))"
  using assms
  by (simp add: processNetPacket_turn_def Let_def
        responder_no_ws[OF handleArp_effects] responder_no_ws[OF handleDHCP_effects])

theorem multicast_not_forwarded_witness:
  "IsTAP (ifce client_ex) \<and>
   IsMulticast [224, 0, 0, 251] \<and>
   WSWriteMessage BinaryMessage [0x45, 0x00]
     \<notin> set (fst (processNetPacket_turn (gopacket_of multicast_packet) env_ok client_ex
                   (Inr [0x01, 0x00, 0x5E])))"
proof -
  have t: "IsTAP (ifce client_ex)" by (simp add: client_ex_def)
  have l: "IPv4Layer (NewPacket (gopacket_of multicast_packet) [0x01, 0x00, 0x5E] LayerTypeEthernet) =
            Some \<lparr>Version = 4, TTL = 1, SrcIP = [10, 0, 0, 2],
                  DstIP = [224, 0, 0, 251], Protocol = IPProtocolUDP\<rparr>"
    by (simp add: gopacket_of_def multicast_packet_def)
  have m: "IsMulticast (DstIP \<lparr>Version = 4, TTL = 1, SrcIP = [10, 0, 0, 2],
                  DstIP = [224, 0, 0, 251], Protocol = IPProtocolUDP\<rparr>)"
    by (simp add: IsMulticast_def To4_def)
  from multicast_not_forwarded[OF t l m] t m show ?thesis by simp
qed

section \<open>The configuration reply\<close>

text \<open>
  C5. On a text frame \<^verbatim>\<open>getConfig\<close> the server writes to the connection a JSON
  \<^verbatim>\<open>ClientConfig\<close> with the acquired address, the configured gateway address and the
  server's route prefixes. The netmask and the DNS servers are left empty, also by a
  server started with the netmask \<^verbatim>\<open>255.255.255.0\<close>, as in the example after the theorem.
\<close>

theorem wsEndpoint_getConfig:
  assumes "wsEndpoint_acquire r0 conn = Some (r, Some a)"
  shows "wsEndpoint_turn env r conn a (Inr (TextMessage, map of_char ''getConfig'')) =
           (r, [ConnWriteJSON conn
                  \<lparr>Ip = a, GWIp = gwIP r0, Netmask = [], DNS = [],
                   RoutePrefix = routePrefix r0\<rparr>],
            if WriteMessage_error env = None then Continue else Return) \<and>
         allocations (ipam r) a =
           Some \<lparr>ipStatus = ipStatusRequested, data = Some (Conn conn), userinfo = None\<rparr>"
proof -
  from assms obtain i' where a: "AcquireIP (ipam r0) (Some (Conn conn)) = Some (i', Inr a)"
    and r: "r = r0\<lparr>ipam := i'\<rparr>"
    by (auto simp add: wsEndpoint_acquire_def split: option.splits sum.splits)
  from AcquireIP_entry[OF a] r show ?thesis
    by (simp add: wsEndpoint_turn_def Let_def)
qed

theorem wsEndpoint_getConfig_witness:
  "wsEndpoint_turn env_ok (server24 leases1) 1 ''10.0.0.2''
     (Inr (TextMessage, map of_char ''getConfig'')) =
     (server24 leases1,
      [ConnWriteJSON 1
         \<lparr>Ip = ''10.0.0.2'', GWIp = ''10.0.0.1'', Netmask = [], DNS = [],
          RoutePrefix = [''172.16.0.1/32'', ''172.16.0.2/32'']\<rparr>],
      Continue)"
  using wsEndpoint_getConfig[OF acquire_24(1), of env_ok]
  by (simp add: server24_def env_ok_def)

theorem wsEndpoint_getConfig_no_netmask:
  "NewWebTunnelServer '':8811'' ''10.0.0.1'' ''255.255.255.0'' 0x0A000000 24
     [''172.16.0.1/32'', ''172.16.0.2/32''] = Inr (server24 leases0) \<and>
   wsEndpoint_acquire (server24 leases0) 1 = Some (server24 leases1, Some ''10.0.0.2'') \<and>
   fst (snd (wsEndpoint_turn env_ok (server24 leases1) 1 ''10.0.0.2''
     (Inr (TextMessage, map of_char ''getConfig'')))) =
      [ConnWriteJSON 1
         \<lparr>Ip = ''10.0.0.2'', GWIp = ''10.0.0.1'', Netmask = [], DNS = [],
          RoutePrefix = [''172.16.0.1/32'', ''172.16.0.2/32'']\<rparr>] \<and>
   ClientConfig.Netmask \<lparr>Ip = ''10.0.0.2'', GWIp = ''10.0.0.1'', Netmask = [], DNS = [],
          RoutePrefix = [''172.16.0.1/32'', ''172.16.0.2/32'']\<rparr> \<noteq> ''255.255.255.0''"
  using NewWebTunnelServer_24 acquire_24(1)
  by (simp add: wsEndpoint_turn_def Let_def TextMessage_def server24_def env_ok_def)

end
